theory Spec2Isabelle
  imports Main "HOL-Library.Word" "HOL-Library.Sublist"
begin

section \<open>Strings\<close>

text \<open>
  A Python \<open>str\<close> is modelled as an ASCII string. \<open>lower\<close>, \<open>isdigit\<close> and
  \<open>isalpha\<close> are \<open>str.lower\<close>, \<open>str.isdigit\<close> and \<open>str.isalpha\<close> on ASCII
  characters; a character beyond ASCII is left alone by \<open>lower\<close> and is in neither class.
\<close>

definition isupper :: "char \<Rightarrow> bool" where
  "isupper c = (let n = (of_char c :: nat) in 65 \<le> n \<and> n \<le> 90)"

definition isdigit :: "char \<Rightarrow> bool" where
  "isdigit c = (let n = (of_char c :: nat) in 48 \<le> n \<and> n \<le> 57)"

definition isalpha :: "char \<Rightarrow> bool" where
  "isalpha c = (let n = (of_char c :: nat) in (65 \<le> n \<and> n \<le> 90) \<or> (97 \<le> n \<and> n \<le> 122))"

text \<open>An upper-case ASCII letter and its lower-case form differ in bit 5 only.\<close>

definition lower_char :: "char \<Rightarrow> char" where
  "lower_char c =
     (if isupper c
      then (case c of Char b0 b1 b2 b3 b4 b5 b6 b7 \<Rightarrow> Char b0 b1 b2 b3 b4 True b6 b7)
      else c)"

definition lower :: "string \<Rightarrow> string" where
  "lower s = map lower_char s"

definition startswith :: "string \<Rightarrow> string \<Rightarrow> bool" where
  "startswith s p = (take (length p) s = p)"

section \<open>Values\<close>

text \<open>
  A float is its IEEE-754 binary64 bit pattern; the wrapper never computes with one, it
  only tests one for truth and passes it on.
\<close>

type_synonym float64 = "64 word"

text \<open>
  A Python value, as far as the wrapper looks at it. The first seven constructors are the
  types \<open>_as_json\<close> names in its \<open>isinstance\<close> test. \<open>PyObject\<close> is any other object,
  given by what the wrapper can observe of it:
  \<^item> \<open>attrs\<close>: the attributes \<open>hasattr\<close> finds, each with its value; for a method
    (\<open>model_dump\<close>, \<open>values\<close>) the value is what calling it returns;
  \<^item> \<open>dict_conv\<close>: the items of \<open>dict(obj)\<close>, \<open>None\<close> when that raises;
  \<^item> \<open>iter_elems\<close>: the elements a \<open>for\<close> loop over the object yields, \<open>None\<close>
    when it is not iterable;
  \<^item> \<open>subscripts\<close>: the table behind \<open>obj[key]\<close>, \<open>None\<close> when the object is not
    subscriptable.
\<close>

datatype pyobj =
    PyNone
  | PyBool bool
  | PyInt int
  | PyFloat float64
  | PyStr string
  | PyList "pyobj list"
  | PyDict "(pyobj \<times> pyobj) list"
  | PyObject (attrs: "(string \<times> pyobj) list")
             (dict_conv: "(pyobj \<times> pyobj) list option")
             (iter_elems: "pyobj list option")
             (subscripts: "(pyobj \<times> pyobj) list option")

datatype exn =
    ValueError string
  | KeyError pyobj
  | TypeError string
  | IndexError string
  | AttributeError string
  | StopIteration
  | OverflowError string

text \<open>
  An error reaching the caller is tagged with where it was raised: \<open>Local\<close> in the
  wrapper's own code (its \<open>raise\<close> statement, or a builtin operation it performs),
  \<open>Sdk\<close> inside a call into the wrapped SDK (a client method, a request model or an enum
  constructor), which includes every error of the remote service.
\<close>

datatype error = Local exn | Sdk string

text \<open>\<open>isinstance(obj, (dict, list, str, int, float, bool, type(None)))\<close>\<close>

fun isinstance_json :: "pyobj \<Rightarrow> bool" where
  "isinstance_json (PyObject a d i s) = False"
| "isinstance_json obj = True"

text \<open>
  \<open>hasattr(obj, name)\<close>. Of the names the wrapper asks for (\<open>model_dump\<close>,
  \<open>__iter__\<close>, \<open>__dict__\<close>, \<open>quote\<close>, \<open>trade\<close>, \<open>bars\<close>) a value of a builtin type
  has \<open>__iter__\<close> only, and only when it is a string, a list or a dict; other names are
  not tabulated for builtin values.
\<close>

fun hasattr :: "pyobj \<Rightarrow> string \<Rightarrow> bool" where
  "hasattr (PyObject a d i s) name = (name \<in> set (map fst a))"
| "hasattr (PyStr s) name = (name = ''__iter__'')"
| "hasattr (PyList xs) name = (name = ''__iter__'')"
| "hasattr (PyDict kvs) name = (name = ''__iter__'')"
| "hasattr obj name = False"

text \<open>\<open>obj.name\<close>, and \<open>obj.name()\<close> for a method, on an object that has the attribute.\<close>

fun getattr :: "pyobj \<Rightarrow> string \<Rightarrow> pyobj option" where
  "getattr (PyObject a d i s) name = map_of a name"
| "getattr obj name = None"

text \<open>
  \<open>dict(obj)\<close>, \<open>None\<close> when it raises. \<open>_as_json\<close> reaches it for no value of a builtin
  type (they return at the \<open>isinstance\<close> test), so only a dict and an object are tabulated.
\<close>

fun dict_of :: "pyobj \<Rightarrow> (pyobj \<times> pyobj) list option" where
  "dict_of (PyObject a d i s) = d"
| "dict_of (PyDict kvs) = Some kvs"
| "dict_of obj = None"

lemma size_snd_item: "(k, v) \<in> set kvs \<Longrightarrow> size v < Suc (size_list (size_prod size size) kvs)"
  by (induction kvs) auto

lemma dict_of_size: "dict_of obj = Some items \<Longrightarrow> (k, v) \<in> set items \<Longrightarrow> size v < size obj"
  by (cases obj) (auto dest: size_snd_item)

section \<open>The normalizer\<close>

text \<open>
  \<open>_as_json\<close>, with \<open>self.raw\<close> as its first argument. An exception inside the \<open>try\<close>
  can only come from \<open>dict(obj)\<close> (attribute values are values here: a \<open>model_dump\<close>
  that raises is not modelled), and then the \<open>except\<close> falls through to the last line.
\<close>

function as_json :: "bool \<Rightarrow> pyobj \<Rightarrow> pyobj" where
  "as_json raw_flag obj =
     (if raw_flag then obj
      else case getattr obj ''model_dump'' of
        Some dumped \<Rightarrow> dumped
      | None \<Rightarrow>
         if isinstance_json obj then obj
         else case (if hasattr obj ''__iter__'' then dict_of obj else None) of
           Some items \<Rightarrow> PyDict (map (\<lambda>(k, v). (k, as_json raw_flag v)) items)
         | None \<Rightarrow> (case getattr obj ''__dict__'' of Some d \<Rightarrow> d | None \<Rightarrow> obj))"
  by pat_completeness auto
termination
  by (relation "measure (\<lambda>(raw_flag, obj). size obj)")
     (auto split: if_splits dest: dict_of_size)

declare as_json.simps [simp del]

section \<open>Enumerations and coercions\<close>

text \<open>The members of the SDK's enumerations that the wrapper names.\<close>

datatype OrderSide = BUY | SELL

datatype OrderType = MARKET | LIMIT | STOP | TRAILING_STOP

datatype TimeFrameUnit = Minute | Hour | Day

text \<open>\<open>_side\<close>\<close>

definition side_of :: "string \<Rightarrow> OrderSide" where
  "side_of side = (if startswith (lower side) ''b'' then BUY else SELL)"

section \<open>Builtin operations on values\<close>

text \<open>
  Truth of a value, as \<open>not\<close> and \<open>or\<close> test it. A float is false when it is \<open>0.0\<close>
  or \<open>-0.0\<close>; an object is true unless its \<open>__bool__\<close> or, failing that, its
  \<open>__len__\<close> says otherwise.
\<close>

definition float_truthy :: "float64 \<Rightarrow> bool" where
  "float_truthy f = (f \<noteq> 0 \<and> f \<noteq> 0x8000000000000000)"

fun truthy :: "pyobj \<Rightarrow> bool" where
  "truthy PyNone = False"
| "truthy (PyBool b) = b"
| "truthy (PyInt n) = (n \<noteq> 0)"
| "truthy (PyFloat f) = float_truthy f"
| "truthy (PyStr s) = (s \<noteq> [])"
| "truthy (PyList xs) = (xs \<noteq> [])"
| "truthy (PyDict kvs) = (kvs \<noteq> [])"
| "truthy (PyObject a d i s) =
     (case map_of a ''__bool__'' of
        Some (PyBool b) \<Rightarrow> b
      | _ \<Rightarrow> (case map_of a ''__len__'' of Some (PyInt n) \<Rightarrow> n \<noteq> 0 | _ \<Rightarrow> True))"

text \<open>The elements a \<open>for\<close> loop or a comprehension takes from a value.\<close>

fun py_iter :: "pyobj \<Rightarrow> exn + pyobj list" where
  "py_iter (PyList xs) = Inr xs"
| "py_iter (PyDict kvs) = Inr (map fst kvs)"
| "py_iter (PyStr s) = Inr (map (\<lambda>c. PyStr [c]) s)"
| "py_iter (PyObject a d (Some xs) s) = Inr xs"
| "py_iter obj = Inl (TypeError ''object is not iterable'')"

text \<open>\<open>next(iter(v))\<close>\<close>

definition first_of :: "pyobj \<Rightarrow> exn + pyobj" where
  "first_of v =
     (case py_iter v of
        Inl e \<Rightarrow> Inl e
      | Inr [] \<Rightarrow> Inl StopIteration
      | Inr (x # xs) \<Rightarrow> Inr x)"

text \<open>\<open>obj.values()\<close>\<close>

fun py_values :: "pyobj \<Rightarrow> exn + pyobj" where
  "py_values (PyDict kvs) = Inr (PyList (map snd kvs))"
| "py_values (PyObject a d i s) =
     (case map_of a ''values'' of
        Some v \<Rightarrow> Inr v
      | None \<Rightarrow> Inl (AttributeError ''values''))"
| "py_values obj = Inl (AttributeError ''values'')"

text \<open>\<open>obj[key]\<close> for a string key.\<close>

fun subscript_str :: "pyobj \<Rightarrow> string \<Rightarrow> exn + pyobj" where
  "subscript_str (PyDict kvs) key =
     (case map_of kvs (PyStr key) of Some v \<Rightarrow> Inr v | None \<Rightarrow> Inl (KeyError (PyStr key)))"
| "subscript_str (PyObject a d i (Some tbl)) key =
     (case map_of tbl (PyStr key) of Some v \<Rightarrow> Inr v | None \<Rightarrow> Inl (KeyError (PyStr key)))"
| "subscript_str (PyList xs) key = Inl (TypeError ''list indices must be integers or slices, not str'')"
| "subscript_str (PyStr s) key = Inl (TypeError ''string indices must be integers, not str'')"
| "subscript_str obj key = Inl (TypeError ''object is not subscriptable'')"

text \<open>\<open>obj[-1]\<close>\<close>

fun subscript_last :: "pyobj \<Rightarrow> exn + pyobj" where
  "subscript_last (PyList xs) =
     (if xs = [] then Inl (IndexError ''list index out of range'') else Inr (last xs))"
| "subscript_last (PyStr s) =
     (if s = [] then Inl (IndexError ''string index out of range'') else Inr (PyStr [last s]))"
| "subscript_last (PyDict kvs) =
     (case map_of kvs (PyInt (- 1)) of Some v \<Rightarrow> Inr v | None \<Rightarrow> Inl (KeyError (PyInt (- 1))))"
| "subscript_last (PyObject a d i (Some tbl)) =
     (case map_of tbl (PyInt (- 1)) of Some v \<Rightarrow> Inr v | None \<Rightarrow> Inl (KeyError (PyInt (- 1))))"
| "subscript_last obj = Inl (TypeError ''object is not subscriptable'')"

text \<open>
  \<open>int(s)\<close> for a string of ASCII digits, the only strings the timeframe parser hands to
  it: the empty string is refused, any other is read in base ten. (CPython's cap on the
  number of digits is not modelled.)
\<close>

definition digit_val :: "char \<Rightarrow> int" where
  "digit_val c = int (of_char c) - 48"

definition int_of_digits :: "string \<Rightarrow> exn + int" where
  "int_of_digits s =
     (if s = [] then Inl (ValueError ''invalid literal for int() with base 10'')
      else Inr (foldl (\<lambda>acc c. 10 * acc + digit_val c) 0 s))"

section \<open>The SDK and the state\<close>

text \<open>
  The wrapped SDK is not part of the repository. A call into it is recorded as it is
  written in the source: \<open>New cls args kwargs\<close> builds an instance of an SDK class (a
  client, a request model, an enum member by value, a timeframe), \<open>Call obj method args
  kwargs\<close> calls a method of an SDK object. What the call returns, or the exception it
  raises, is decided by the environment from the call and the state of the remote
  service.
\<close>

datatype arg = Obj pyobj | Side OrderSide | OType OrderType | TUnit TimeFrameUnit

datatype sdk_call =
    New string "arg list" "(string \<times> arg) list"
  | Call pyobj string "arg list" "(string \<times> arg) list"

type_synonym sdk_result = "string + pyobj"

text \<open>
  The environment: the SDK, and the three library functions whose results the model does
  not compute: \<open>datetime.fromisoformat\<close> (\<open>None\<close> when it raises), \<open>float\<close> (\<open>None\<close>
  when it raises) and the formatting of a value inside an f-string.
\<close>

record 'r env =
  sdk :: "sdk_call \<Rightarrow> 'r \<Rightarrow> sdk_result \<times> 'r"
  fromisoformat :: "string \<Rightarrow> pyobj option"
  float_of :: "pyobj \<Rightarrow> float64 option"
  format_of :: "pyobj \<Rightarrow> string"

text \<open>
  The state: the fields of the \<open>SimpleAlpaca\<close> object, the state of the remote service,
  and the record of the SDK calls made so far, each with its outcome.
\<close>

record 'r state =
  raw :: bool
  trade :: pyobj
  hist :: pyobj
  ws :: pyobj
  api_key :: string
  secret :: string
  calls :: "(sdk_call \<times> sdk_result) list"
  remote :: 'r

type_synonym ('r, 'a) py = "'r state \<Rightarrow> (error + 'a) \<times> 'r state"

definition py_return :: "'a \<Rightarrow> ('r, 'a) py" where
  "py_return x = (\<lambda>st. (Inr x, st))"

definition py_raise :: "exn \<Rightarrow> ('r, 'a) py" where
  "py_raise e = (\<lambda>st. (Inl (Local e), st))"

definition py_bind :: "('r, 'a) py \<Rightarrow> ('a \<Rightarrow> ('r, 'b) py) \<Rightarrow> ('r, 'b) py" where
  "py_bind m f = (\<lambda>st. case m st of (Inl e, st') \<Rightarrow> (Inl e, st') | (Inr x, st') \<Rightarrow> f x st')"

text \<open>The outcome of a builtin operation: its exception is raised in the wrapper's code.\<close>

definition py_lift :: "exn + 'a \<Rightarrow> ('r, 'a) py" where
  "py_lift r = (case r of Inl e \<Rightarrow> py_raise e | Inr x \<Rightarrow> py_return x)"

text \<open>Reading a field of \<open>self\<close>.\<close>

definition py_get :: "('r state \<Rightarrow> 'a) \<Rightarrow> ('r, 'a) py" where
  "py_get field = (\<lambda>st. (Inr (field st), st))"

text \<open>A call into the SDK: its exception propagates as it is.\<close>

definition invoke :: "'r env \<Rightarrow> sdk_call \<Rightarrow> ('r, pyobj) py" where
  "invoke env c =
     (\<lambda>st. case sdk env c (remote st) of
        (res, r') \<Rightarrow>
          (case res of Inl e \<Rightarrow> Inl (Sdk e) | Inr v \<Rightarrow> Inr v,
           st\<lparr>calls := calls st @ [(c, res)], remote := r'\<rparr>))"

text \<open>
  \<open>__init__\<close>. The object exists only when both clients were built; the record of calls
  starts with them.
\<close>

definition init :: "'r env \<Rightarrow> string \<Rightarrow> string \<Rightarrow> bool \<Rightarrow> bool \<Rightarrow> 'r \<Rightarrow> error + 'r state" where
  "init env key secret_key paper raw_data r =
     (let c1 = New ''TradingClient'' [Obj (PyStr key), Obj (PyStr secret_key)]
                 [(''paper'', Obj (PyBool paper))];
          c2 = New ''StockHistoricalDataClient'' [Obj (PyStr key), Obj (PyStr secret_key)] []
      in case sdk env c1 r of
           (Inl e, r1) \<Rightarrow> Inl (Sdk e)
         | (Inr t, r1) \<Rightarrow>
            (case sdk env c2 r1 of
               (Inl e, r2) \<Rightarrow> Inl (Sdk e)
             | (Inr h, r2) \<Rightarrow>
                Inr \<lparr>raw = raw_data, trade = t, hist = h, ws = PyNone, api_key = key,
                     secret = secret_key, calls = [(c1, Inr t), (c2, Inr h)], remote = r2\<rparr>))"

text \<open>\<open>self._as_json(obj)\<close>\<close>

definition as_json_self :: "pyobj \<Rightarrow> ('r, pyobj) py" where
  "as_json_self obj = py_bind (py_get raw) (\<lambda>raw_flag. py_return (as_json raw_flag obj))"

text \<open>\<open>[self._as_json(x) for x in xs]\<close>\<close>

definition as_json_each :: "pyobj \<Rightarrow> ('r, pyobj) py" where
  "as_json_each xs =
     py_bind (py_lift (py_iter xs)) (\<lambda>elems.
     py_bind (py_get raw) (\<lambda>raw_flag.
     py_return (PyList (map (as_json raw_flag) elems))))"

text \<open>\<open>_tif\<close>: the argument is a string or a member of \<open>TimeInForce\<close> already.\<close>

datatype tif_arg = TifStr string | TifMember pyobj

definition tif_of :: "'r env \<Rightarrow> tif_arg \<Rightarrow> ('r, pyobj) py" where
  "tif_of env tif =
     (case tif of
        TifMember t \<Rightarrow> py_return t
      | TifStr s \<Rightarrow> invoke env (New ''TimeInForce'' [Obj (PyStr (lower s))] []))"

section \<open>Account and positions\<close>

definition get_account_json :: "'r env \<Rightarrow> ('r, pyobj) py" where
  "get_account_json env =
     py_bind (py_get trade) (\<lambda>t.
     py_bind (invoke env (Call t ''get_account'' [] [])) as_json_self)"

definition get_positions :: "'r env \<Rightarrow> ('r, pyobj) py" where
  "get_positions env =
     py_bind (py_get trade) (\<lambda>t.
     py_bind (invoke env (Call t ''get_all_positions'' [] [])) as_json_each)"

definition get_position :: "'r env \<Rightarrow> string \<Rightarrow> ('r, pyobj) py" where
  "get_position env symbol =
     py_bind (py_get trade) (\<lambda>t.
     py_bind (invoke env (Call t ''get_position'' [Obj (PyStr symbol)] [])) as_json_self)"

definition portfolio_summary :: "'r env \<Rightarrow> ('r, pyobj) py" where
  "portfolio_summary env =
     py_bind (get_account_json env) (\<lambda>acct.
     py_bind (get_positions env) (\<lambda>positions.
     py_bind (py_lift (subscript_str acct ''cash'')) (\<lambda>c.
     py_bind (py_lift (subscript_str acct ''buying_power'')) (\<lambda>b.
     py_bind (py_lift (subscript_str acct ''portfolio_value'')) (\<lambda>v.
     py_return (PyDict [(PyStr ''cash'', c), (PyStr ''buying_power'', b),
                        (PyStr ''portfolio_value'', v), (PyStr ''positions'', positions)]))))))"

section \<open>Orders\<close>

text \<open>\<open>_submit\<close>\<close>

definition submit :: "'r env \<Rightarrow> (string \<times> arg) list \<Rightarrow> ('r, pyobj) py" where
  "submit env kwargs =
     py_bind (invoke env (New ''OrderRequest'' [] kwargs)) (\<lambda>req.
     py_bind (py_get trade) (\<lambda>t.
     py_bind (invoke env (Call t ''submit_order'' [Obj req] [])) as_json_self))"

definition market_buy :: "'r env \<Rightarrow> string \<Rightarrow> float64 \<Rightarrow> tif_arg \<Rightarrow> ('r, pyobj) py" where
  "market_buy env symbol qty tif =
     py_bind (tif_of env tif) (\<lambda>t.
     submit env [(''symbol'', Obj (PyStr symbol)), (''qty'', Obj (PyFloat qty)),
                 (''side'', Side BUY), (''type'', OType MARKET), (''time_in_force'', Obj t)])"

definition market_sell :: "'r env \<Rightarrow> string \<Rightarrow> float64 \<Rightarrow> tif_arg \<Rightarrow> ('r, pyobj) py" where
  "market_sell env symbol qty tif =
     py_bind (tif_of env tif) (\<lambda>t.
     submit env [(''symbol'', Obj (PyStr symbol)), (''qty'', Obj (PyFloat qty)),
                 (''side'', Side SELL), (''type'', OType MARKET), (''time_in_force'', Obj t)])"

definition limit_order ::
  "'r env \<Rightarrow> string \<Rightarrow> float64 \<Rightarrow> float64 \<Rightarrow> string \<Rightarrow> tif_arg \<Rightarrow> ('r, pyobj) py" where
  "limit_order env symbol qty limit_price side tif =
     py_bind (tif_of env tif) (\<lambda>t.
     submit env [(''symbol'', Obj (PyStr symbol)), (''qty'', Obj (PyFloat qty)),
                 (''side'', Side (side_of side)), (''type'', OType LIMIT),
                 (''limit_price'', Obj (PyFloat limit_price)), (''time_in_force'', Obj t)])"

definition stop_loss ::
  "'r env \<Rightarrow> string \<Rightarrow> float64 \<Rightarrow> float64 \<Rightarrow> string \<Rightarrow> tif_arg \<Rightarrow> ('r, pyobj) py" where
  "stop_loss env symbol qty stop_price side tif =
     py_bind (tif_of env tif) (\<lambda>t.
     submit env [(''symbol'', Obj (PyStr symbol)), (''qty'', Obj (PyFloat qty)),
                 (''side'', Side (side_of side)), (''type'', OType STOP),
                 (''stop_price'', Obj (PyFloat stop_price)), (''time_in_force'', Obj t)])"

text \<open>An argument annotated \<open>float | None\<close>.\<close>

definition opt_float :: "float64 option \<Rightarrow> pyobj" where
  "opt_float x = (case x of None \<Rightarrow> PyNone | Some f \<Rightarrow> PyFloat f)"

definition trail_msg :: string where
  "trail_msg = ''Specify trail_percent or trail_price.''"

definition trailing_stop ::
  "'r env \<Rightarrow> string \<Rightarrow> float64 \<Rightarrow> float64 option \<Rightarrow> float64 option \<Rightarrow> string \<Rightarrow> tif_arg
     \<Rightarrow> ('r, pyobj) py" where
  "trailing_stop env symbol qty trail_percent trail_price side tif =
     (if \<not> (truthy (opt_float trail_percent) \<or> truthy (opt_float trail_price))
      then py_raise (ValueError trail_msg)
      else py_bind (tif_of env tif) (\<lambda>t.
           submit env [(''symbol'', Obj (PyStr symbol)), (''qty'', Obj (PyFloat qty)),
                       (''side'', Side (side_of side)), (''type'', OType TRAILING_STOP),
                       (''trail_percent'', Obj (opt_float trail_percent)),
                       (''trail_price'', Obj (opt_float trail_price)),
                       (''time_in_force'', Obj t)]))"

definition submit_custom_order :: "'r env \<Rightarrow> (string \<times> arg) list \<Rightarrow> ('r, pyobj) py" where
  "submit_custom_order env alpaca_order_kwargs = submit env alpaca_order_kwargs"

definition cancel_order :: "'r env \<Rightarrow> string \<Rightarrow> ('r, pyobj) py" where
  "cancel_order env order_id =
     py_bind (py_get trade) (\<lambda>t.
     py_bind (invoke env (Call t ''cancel_order_by_id'' [Obj (PyStr order_id)] [])) (\<lambda>r.
     py_return PyNone))"

definition cancel_all_orders :: "'r env \<Rightarrow> ('r, pyobj) py" where
  "cancel_all_orders env =
     py_bind (py_get trade) (\<lambda>t.
     py_bind (invoke env (Call t ''cancel_orders'' [] [])) (\<lambda>r.
     py_return PyNone))"

definition list_orders :: "'r env \<Rightarrow> string \<Rightarrow> int \<Rightarrow> ('r, pyobj) py" where
  "list_orders env status limit =
     py_bind (invoke env (New ''GetOrdersRequest'' []
                [(''status'', Obj (PyStr status)), (''limit'', Obj (PyInt limit))])) (\<lambda>req.
     py_bind (py_get trade) (\<lambda>t.
     py_bind (invoke env (Call t ''get_orders'' [Obj req] [])) as_json_each))"

definition get_order :: "'r env \<Rightarrow> string \<Rightarrow> ('r, pyobj) py" where
  "get_order env order_id =
     py_bind (py_get trade) (\<lambda>t.
     py_bind (invoke env (Call t ''get_order_by_id'' [Obj (PyStr order_id)] [])) as_json_self)"

definition close_position :: "'r env \<Rightarrow> string \<Rightarrow> ('r, pyobj) py" where
  "close_position env symbol =
     py_bind (py_get trade) (\<lambda>t.
     py_bind (invoke env (Call t ''close_position'' [Obj (PyStr symbol)] [])) (\<lambda>r.
     py_return PyNone))"

definition close_all_positions :: "'r env \<Rightarrow> ('r, pyobj) py" where
  "close_all_positions env =
     py_bind (py_get trade) (\<lambda>t.
     py_bind (invoke env (Call t ''close_all_positions'' [] [])) (\<lambda>r.
     py_return PyNone))"

definition list_assets :: "'r env \<Rightarrow> string \<Rightarrow> string \<Rightarrow> ('r, pyobj) py" where
  "list_assets env status asset_class =
     py_bind (invoke env (New ''GetAssetsRequest'' []
                [(''status'', Obj (PyStr status)), (''asset_class'', Obj (PyStr asset_class))])) (\<lambda>req.
     py_bind (py_get trade) (\<lambda>t.
     py_bind (invoke env (Call t ''get_all_assets'' [Obj req] [])) as_json_each))"

section \<open>Market data\<close>

text \<open>
  \<open>_tf_parse\<close>. \<open>unit_str\<close> is the parser's variable of that name, \<open>unit_token\<close> the
  key \<open>unit_str[:3]\<close> it looks up, \<open>unit_table\<close> its table.
\<close>

datatype tf_arg = TfStr string | TfInt int

definition unit_str :: "string \<Rightarrow> string" where
  "unit_str timeframe = lower (filter isalpha timeframe)"

definition unit_token :: "string \<Rightarrow> string" where
  "unit_token timeframe = take 3 (unit_str timeframe)"

definition unit_table :: "(string \<times> TimeFrameUnit) list" where
  "unit_table = [(''min'', Minute), (''hour'', Hour), (''day'', Day)]"

definition lookup_unit :: "string \<Rightarrow> exn + TimeFrameUnit" where
  "lookup_unit key =
     (case map_of unit_table key of Some u \<Rightarrow> Inr u | None \<Rightarrow> Inl (KeyError (PyStr key)))"

definition tf_parse :: "'r env \<Rightarrow> tf_arg \<Rightarrow> TimeFrameUnit \<Rightarrow> ('r, pyobj) py" where
  "tf_parse env timeframe unit =
     (case timeframe of
        TfStr s \<Rightarrow>
          py_bind (py_lift (int_of_digits (filter isdigit s))) (\<lambda>num.
          py_bind (py_lift (lookup_unit (unit_token s))) (\<lambda>u.
          invoke env (New ''TimeFrame'' [Obj (PyInt num), TUnit u] [])))
      | TfInt n \<Rightarrow> invoke env (New ''TimeFrame'' [Obj (PyInt n), TUnit unit] []))"

text \<open>\<open>data.name if hasattr(data, name) else next(iter(data.values()))\<close>\<close>

definition attr_or_first_value :: "pyobj \<Rightarrow> string \<Rightarrow> exn + pyobj" where
  "attr_or_first_value data name =
     (case getattr data name of
        Some v \<Rightarrow> Inr v
      | None \<Rightarrow> (case py_values data of Inl e \<Rightarrow> Inl e | Inr vs \<Rightarrow> first_of vs))"

definition get_last_quote :: "'r env \<Rightarrow> string \<Rightarrow> ('r, pyobj) py" where
  "get_last_quote env symbol =
     py_bind (invoke env (New ''StockLatestQuoteRequest'' []
                [(''symbol_or_symbols'', Obj (PyStr symbol))])) (\<lambda>req.
     py_bind (py_get hist) (\<lambda>h.
     py_bind (invoke env (Call h ''get_stock_latest_quote'' [Obj req] [])) (\<lambda>data.
     py_bind (py_lift (attr_or_first_value data ''quote'')) as_json_self)))"

definition get_last_trade :: "'r env \<Rightarrow> string \<Rightarrow> ('r, pyobj) py" where
  "get_last_trade env symbol =
     py_bind (invoke env (New ''StockLatestTradeRequest'' []
                [(''symbol_or_symbols'', Obj (PyStr symbol))])) (\<lambda>req.
     py_bind (py_get hist) (\<lambda>h.
     py_bind (invoke env (Call h ''get_stock_latest_trade'' [Obj req] [])) (\<lambda>data.
     py_bind (py_lift (attr_or_first_value data ''trade'')) as_json_self)))"

definition get_last_bar :: "'r env \<Rightarrow> string \<Rightarrow> tf_arg \<Rightarrow> ('r, pyobj) py" where
  "get_last_bar env symbol timeframe =
     py_bind (tf_parse env timeframe Minute) (\<lambda>tf.
     py_bind (py_get hist) (\<lambda>h.
     py_bind (invoke env (Call h ''get_stock_bars'' [Obj (PyStr symbol), Obj tf]
                [(''limit'', Obj (PyInt 1))])) (\<lambda>bars.
     py_bind (py_lift (subscript_last bars)) as_json_self)))"

text \<open>An argument annotated \<open>str | datetime\<close>, and its conversion to a datetime.\<close>

datatype dt_arg = DtStr string | DtValue pyobj

definition to_datetime :: "'r env \<Rightarrow> dt_arg \<Rightarrow> exn + pyobj" where
  "to_datetime env d =
     (case d of
        DtValue v \<Rightarrow> Inr v
      | DtStr s \<Rightarrow>
         (case fromisoformat env s of
            Some v \<Rightarrow> Inr v
          | None \<Rightarrow> Inl (ValueError ''Invalid isoformat string'')))"

definition opt_int :: "int option \<Rightarrow> pyobj" where
  "opt_int x = (case x of None \<Rightarrow> PyNone | Some n \<Rightarrow> PyInt n)"

text \<open>\<open>raw.bars[symbol] if hasattr(raw, "bars") else raw[symbol]\<close>\<close>

definition bars_of :: "pyobj \<Rightarrow> string \<Rightarrow> exn + pyobj" where
  "bars_of response symbol =
     (case getattr response ''bars'' of
        Some b \<Rightarrow> subscript_str b symbol
      | None \<Rightarrow> subscript_str response symbol)"

definition get_historical_bars ::
  "'r env \<Rightarrow> string \<Rightarrow> tf_arg \<Rightarrow> dt_arg \<Rightarrow> dt_arg \<Rightarrow> int option \<Rightarrow> ('r, pyobj) py" where
  "get_historical_bars env symbol timeframe start end_arg limit =
     py_bind (tf_parse env timeframe Minute) (\<lambda>tf.
     py_bind (py_lift (to_datetime env start)) (\<lambda>start_dt.
     py_bind (py_lift (to_datetime env end_arg)) (\<lambda>end_dt.
     py_bind (invoke env (New ''StockBarsRequest'' []
                [(''symbol_or_symbols'', Obj (PyStr symbol)), (''timeframe'', Obj tf),
                 (''start'', Obj start_dt), (''end'', Obj end_dt),
                 (''limit'', Obj (opt_int limit))])) (\<lambda>req.
     py_bind (py_get hist) (\<lambda>h.
     py_bind (invoke env (Call h ''get_stock_bars'' [Obj req] [])) (\<lambda>response.
     py_bind (py_lift (bars_of response symbol)) as_json_each))))))"

section \<open>Live streaming\<close>

definition set_ws :: "pyobj \<Rightarrow> ('r, unit) py" where
  "set_ws h = (\<lambda>st. (Inr (), st\<lparr>ws := h\<rparr>))"

text \<open>\<open>_ensure_ws\<close>\<close>

definition ensure_ws :: "'r env \<Rightarrow> ('r, unit) py" where
  "ensure_ws env =
     py_bind (py_get ws) (\<lambda>h.
     if \<not> truthy h
     then py_bind (py_get api_key) (\<lambda>k.
          py_bind (py_get secret) (\<lambda>s.
          py_bind (invoke env (New ''StockDataStream'' [Obj (PyStr k), Obj (PyStr s)] [])) set_ws))
     else py_return ())"

text \<open>The loop of \<open>subscribe_price\<close>; \<open>symbols\<close> are the strings the iterable yields.\<close>

fun subscribe_each :: "'r env \<Rightarrow> pyobj \<Rightarrow> string list \<Rightarrow> ('r, unit) py" where
  "subscribe_each env callback [] = py_return ()"
| "subscribe_each env callback (symbol # symbols) =
     py_bind (py_get ws) (\<lambda>h.
     py_bind (invoke env (Call h ''subscribe_bars'' [Obj callback, Obj (PyStr symbol)] [])) (\<lambda>r.
     subscribe_each env callback symbols))"

text \<open>
  \<open>subscribe_price\<close>. The call of \<open>run\<close> is recorded when it is entered; the operation has
  an outcome only when \<open>run\<close> returns or raises.
\<close>

definition subscribe_price :: "'r env \<Rightarrow> string list \<Rightarrow> pyobj \<Rightarrow> ('r, pyobj) py" where
  "subscribe_price env symbols callback =
     py_bind (ensure_ws env) (\<lambda>u.
     py_bind (subscribe_each env callback symbols) (\<lambda>u.
     py_bind (py_get ws) (\<lambda>h.
     py_bind (invoke env (Call h ''run'' [] [])) (\<lambda>r.
     py_return PyNone))))"

section \<open>Quality-of-life operations\<close>

text \<open>\<open>float(v)\<close>, with the exception Python raises for a value of each type.\<close>

definition to_float :: "'r env \<Rightarrow> pyobj \<Rightarrow> exn + pyobj" where
  "to_float env v =
     (case float_of env v of
        Some f \<Rightarrow> Inr (PyFloat f)
      | None \<Rightarrow>
         (case v of
            PyStr s \<Rightarrow> Inl (ValueError ''could not convert string to float'')
          | PyInt n \<Rightarrow> Inl (OverflowError ''int too large to convert to float'')
          | _ \<Rightarrow> Inl (TypeError ''float() argument must be a string or a real number'')))"

definition cash :: "'r env \<Rightarrow> ('r, pyobj) py" where
  "cash env =
     py_bind (get_account_json env) (\<lambda>acct.
     py_bind (py_lift (subscript_str acct ''cash'')) (\<lambda>c.
     py_lift (to_float env c)))"

definition buying_power :: "'r env \<Rightarrow> ('r, pyobj) py" where
  "buying_power env =
     py_bind (get_account_json env) (\<lambda>acct.
     py_bind (py_lift (subscript_str acct ''buying_power'')) (\<lambda>b.
     py_lift (to_float env b)))"

text \<open>\<open>__repr__\<close>\<close>

definition repr :: "'r env \<Rightarrow> ('r, pyobj) py" where
  "repr env =
     py_bind (get_account_json env) (\<lambda>acct.
     py_bind (py_lift (subscript_str acct ''cash'')) (\<lambda>c.
     py_bind (py_lift (subscript_str acct ''portfolio_value'')) (\<lambda>v.
     py_return (PyStr (''<SimpleAlpaca cash=$'' @ format_of env c @
                       '' portfolio=$'' @ format_of env v @ ''>'')))))"

section \<open>The public surface\<close>

text \<open>One constructor for each method a caller can invoke on the object.\<close>

datatype op =
    GetAccountJson
  | GetPositions
  | GetPosition string
  | PortfolioSummary
  | MarketBuy string float64 tif_arg
  | MarketSell string float64 tif_arg
  | LimitOrder string float64 float64 string tif_arg
  | StopLoss string float64 float64 string tif_arg
  | TrailingStop string float64 "float64 option" "float64 option" string tif_arg
  | SubmitCustomOrder "(string \<times> arg) list"
  | CancelOrder string
  | CancelAllOrders
  | ListOrders string int
  | GetOrder string
  | ClosePosition string
  | CloseAllPositions
  | ListAssets string string
  | GetLastQuote string
  | GetLastTrade string
  | GetLastBar string tf_arg
  | GetHistoricalBars string tf_arg dt_arg dt_arg "int option"
  | SubscribePrice "string list" pyobj
  | Cash
  | BuyingPower
  | Repr

fun perform :: "'r env \<Rightarrow> op \<Rightarrow> ('r, pyobj) py" where
  "perform env GetAccountJson = get_account_json env"
| "perform env GetPositions = get_positions env"
| "perform env (GetPosition symbol) = get_position env symbol"
| "perform env PortfolioSummary = portfolio_summary env"
| "perform env (MarketBuy symbol qty tif) = market_buy env symbol qty tif"
| "perform env (MarketSell symbol qty tif) = market_sell env symbol qty tif"
| "perform env (LimitOrder symbol qty limit_price side tif) =
     limit_order env symbol qty limit_price side tif"
| "perform env (StopLoss symbol qty stop_price side tif) =
     stop_loss env symbol qty stop_price side tif"
| "perform env (TrailingStop symbol qty trail_percent trail_price side tif) =
     trailing_stop env symbol qty trail_percent trail_price side tif"
| "perform env (SubmitCustomOrder kwargs) = submit_custom_order env kwargs"
| "perform env (CancelOrder order_id) = cancel_order env order_id"
| "perform env CancelAllOrders = cancel_all_orders env"
| "perform env (ListOrders status limit) = list_orders env status limit"
| "perform env (GetOrder order_id) = get_order env order_id"
| "perform env (ClosePosition symbol) = close_position env symbol"
| "perform env CloseAllPositions = close_all_positions env"
| "perform env (ListAssets status asset_class) = list_assets env status asset_class"
| "perform env (GetLastQuote symbol) = get_last_quote env symbol"
| "perform env (GetLastTrade symbol) = get_last_trade env symbol"
| "perform env (GetLastBar symbol timeframe) = get_last_bar env symbol timeframe"
| "perform env (GetHistoricalBars symbol timeframe start end_arg limit) =
     get_historical_bars env symbol timeframe start end_arg limit"
| "perform env (SubscribePrice symbols callback) = subscribe_price env symbols callback"
| "perform env Cash = cash env"
| "perform env BuyingPower = buying_power env"
| "perform env Repr = repr env"

section \<open>Test doubles\<close>

text \<open>
  A scripted SDK for evaluating the model on concrete inputs: a call is answered from a
  table keyed by the class or method name, with a default answer for the other calls; the
  remote service has no state. \<open>demo_state\<close> is the object such an SDK builds.
\<close>

definition sdk_name :: "sdk_call \<Rightarrow> string" where
  "sdk_name c = (case c of New cls args kwargs \<Rightarrow> cls | Call obj method args kwargs \<Rightarrow> method)"

definition demo_env :: "(string \<times> sdk_result) list \<Rightarrow> sdk_result \<Rightarrow> unit env" where
  "demo_env answers dflt =
     \<lparr>sdk = (\<lambda>c r. (case map_of answers (sdk_name c) of Some res \<Rightarrow> res | None \<Rightarrow> dflt, r)),
      fromisoformat = (\<lambda>s. None),
      float_of = (\<lambda>v. None),
      format_of = (\<lambda>v. [])\<rparr>"

definition client_obj :: pyobj where
  "client_obj = PyObject [] None None None"

definition demo_state :: "bool \<Rightarrow> unit state" where
  "demo_state raw_data =
     \<lparr>raw = raw_data, trade = client_obj, hist = client_obj, ws = PyNone,
      api_key = ''key'', secret = ''secret'', calls = [], remote = ()\<rparr>"


section \<open>Vocabulary of the claims\<close>

text \<open>
  What an operation's record of calls and its outcome must satisfy for the SDK's errors to
  reach the caller unchanged: an outcome \<open>Sdk e\<close> is the error of the last call made, a
  call that failed is the outcome, and a local error is one the operation is allowed.
\<close>

definition outcome_ok ::
  "(exn \<Rightarrow> bool) \<Rightarrow> (sdk_call \<times> sdk_result) list \<Rightarrow> error + 'a \<Rightarrow> bool" where
  "outcome_ok allowed new res =
     ((\<forall>e. res = Inl (Sdk e) \<longrightarrow> new \<noteq> [] \<and> snd (last new) = Inl e) \<and>
      (\<forall>c e. (c, Inl e) \<in> set new \<longrightarrow> res = Inl (Sdk e)) \<and>
      (\<forall>x. res = Inl (Local x) \<longrightarrow> allowed x))"

definition faithful :: "(exn \<Rightarrow> bool) \<Rightarrow> ('r, 'a) py \<Rightarrow> bool" where
  "faithful allowed m =
     (\<forall>st. \<exists>new. calls (snd (m st)) = calls st @ new \<and> outcome_ok allowed new (fst (m st)))"


text \<open>
  The operations that parse a timeframe or a date, or take the SDK's response apart
  (iterate over it, subscript it, read an attribute of it, convert a field to a float).
\<close>

fun unpacks :: "op \<Rightarrow> bool" where
  "unpacks GetPositions = True"
| "unpacks PortfolioSummary = True"
| "unpacks (ListOrders status limit) = True"
| "unpacks (ListAssets status asset_class) = True"
| "unpacks (GetLastQuote symbol) = True"
| "unpacks (GetLastTrade symbol) = True"
| "unpacks (GetLastBar symbol timeframe) = True"
| "unpacks (GetHistoricalBars symbol timeframe start end_arg limit) = True"
| "unpacks Cash = True"
| "unpacks BuyingPower = True"
| "unpacks Repr = True"
| "unpacks op = False"

fun local_errors :: "op \<Rightarrow> exn \<Rightarrow> bool" where
  "local_errors (TrailingStop symbol qty trail_percent trail_price side tif) x =
     (x = ValueError trail_msg \<and>
      \<not> truthy (opt_float trail_percent) \<and> \<not> truthy (opt_float trail_price))"
| "local_errors op x = (unpacks op \<and> x \<noteq> ValueError trail_msg)"



text \<open>
  The streaming handles built so far: the results of the calls of the \<open>StockDataStream\<close>
  constructor that returned.
\<close>

definition is_stream_ctor :: "sdk_call \<Rightarrow> bool" where
  "is_stream_ctor c =
     (case c of New cls args kwargs \<Rightarrow> cls = ''StockDataStream''
              | Call obj method args kwargs \<Rightarrow> False)"

definition streams_built :: "(sdk_call \<times> sdk_result) list \<Rightarrow> pyobj list" where
  "streams_built log =
     concat (map (\<lambda>(c, r). case r of Inr h \<Rightarrow> (if is_stream_ctor c then [h] else [])
                                    | Inl e \<Rightarrow> []) log)"

text \<open>
  The SDK's side of the streaming handle: what its constructor returns tests true, as an
  instance of a class with neither \<open>__bool__\<close> nor \<open>__len__\<close> does.
\<close>

definition stream_ctor_sound :: "'r env \<Rightarrow> bool" where
  "stream_ctor_sound env =
     (\<forall>c r h r'. is_stream_ctor c \<longrightarrow> sdk env c r = (Inr h, r') \<longrightarrow> truthy h)"

text \<open>A caller invoking operations one after the other, whatever each returns or raises.\<close>

fun run_ops :: "'r env \<Rightarrow> op list \<Rightarrow> 'r state \<Rightarrow> 'r state" where
  "run_ops env [] st = st"
| "run_ops env (op # ops) st = run_ops env ops (snd (perform env op st))"

text \<open>A computation that leaves the handle and the keys alone and builds no stream.\<close>

definition quiet :: "('r, 'a) py \<Rightarrow> bool" where
  "quiet m =
     (\<forall>st. ws (snd (m st)) = ws st \<and> api_key (snd (m st)) = api_key st \<and>
           secret (snd (m st)) = secret st \<and>
           (\<exists>new. calls (snd (m st)) = calls st @ new \<and> streams_built new = []))"

text \<open>At most one handle was built, and it is the one the object holds.\<close>

definition handle_inv :: "'r state \<Rightarrow> bool" where
  "handle_inv st =
     (streams_built (calls st) = [] \<and> ws st = PyNone \<or>
      streams_built (calls st) = [ws st] \<and> truthy (ws st))"

section \<open>Side and time-in-force coercion\<close>

lemma lower_char_b: "lower_char c = CHR ''b'' \<longleftrightarrow> c = CHR ''b'' \<or> c = CHR ''B''"
  by (cases c) (auto simp: lower_char_def isupper_def)

lemma lower_char_not_upper: "\<not> isupper (lower_char c)"
  by (cases c) (auto simp: lower_char_def isupper_def)

text \<open>
  C2, as the claim states it, fails: \<open>_side\<close> lower-cases its argument first, so a string
  that starts with a capital \<open>B\<close> does not start with \<open>b\<close> and still is a buy.
\<close>

theorem side_of_capital_counterexample:
  "\<not> startswith ''Buy'' ''b'' \<and> side_of ''Buy'' \<noteq> SELL"
  by (simp add: side_of_def startswith_def lower_def lower_char_def isupper_def)

text \<open>
  C2, amended: for every string, \<open>_side\<close> gives the buy side when the string starts with
  \<open>b\<close> or with \<open>B\<close>, and the sell side for every other string (the empty string too).
\<close>

theorem side_of_first_letter:
  "side_of s = (if startswith s ''b'' \<or> startswith s ''B'' then BUY else SELL)"
  by (cases s) (auto simp: side_of_def startswith_def lower_def lower_char_b)

text \<open>
  C6: \<open>_tif\<close> returns a value that is a \<open>TimeInForce\<close> already as it is, without a call
  into the SDK; a string it hands to the \<open>TimeInForce\<close> enumeration lower-cased: the
  argument of that call is \<open>lower s\<close>, in which no upper-case letter is left.
\<close>

theorem tif_of_coerces:
  "tif_of env (TifMember t) st = (Inr t, st) \<and>
   tif_of env (TifStr s) st = invoke env (New ''TimeInForce'' [Obj (PyStr (lower s))] []) st \<and>
   (\<forall>c \<in> set (lower s). \<not> isupper c)"
  by (simp add: tif_of_def py_return_def lower_def lower_char_not_upper)

theorem tif_of_coerces_witness:
  "tif_of (demo_env [] (Inr PyNone)) (TifMember (PyStr ''day'')) (demo_state False)
     = (Inr (PyStr ''day''), demo_state False) \<and>
   fst (tif_of (demo_env [] (Inr PyNone)) (TifStr ''GtC'') (demo_state False)) = Inr PyNone \<and>
   calls (snd (tif_of (demo_env [] (Inr PyNone)) (TifStr ''GtC'') (demo_state False)))
     = [(New ''TimeInForce'' [Obj (PyStr ''gtc'')] [], Inr PyNone)]"
  using tif_of_coerces [of "demo_env [] (Inr PyNone)" "PyStr ''day''" "demo_state False" "''GtC''"]
  by (simp add: invoke_def demo_env_def demo_state_def sdk_name_def lower_def lower_char_def
      isupper_def)

section \<open>The normalizer's cases\<close>

text \<open>
  C5: with \<open>raw\<close> off, \<open>_as_json\<close>
  \<^item> returns a value of one of the seven builtin types unchanged;
  \<^item> returns what \<open>model_dump\<close> returns, for an object that has it;
  \<^item> for another object that has \<open>__iter__\<close> and that \<open>dict\<close> converts, returns the dict
    of its items, each value normalized in turn;
  \<^item> otherwise returns the object's \<open>__dict__\<close> when it has one, and the object itself
    when it has none.
\<close>

theorem as_json_cases:
  "(isinstance_json obj \<longrightarrow> as_json False obj = obj) \<and>
   (getattr obj ''model_dump'' = Some dumped \<longrightarrow> as_json False obj = dumped) \<and>
   (getattr obj ''model_dump'' = None \<and> \<not> isinstance_json obj \<and> hasattr obj ''__iter__'' \<and>
      dict_of obj = Some items \<longrightarrow>
        as_json False obj = PyDict (map (\<lambda>(k, v). (k, as_json False v)) items)) \<and>
   (getattr obj ''model_dump'' = None \<and> \<not> isinstance_json obj \<and>
      (\<not> hasattr obj ''__iter__'' \<or> dict_of obj = None) \<longrightarrow>
        as_json False obj = (case getattr obj ''__dict__'' of Some d \<Rightarrow> d | None \<Rightarrow> obj))"
  by (cases obj) (auto simp: as_json.simps)

theorem as_json_cases_witness:
  "as_json False (PyStr ''AAPL'') = PyStr ''AAPL'' \<and>
   as_json False (PyObject [(''model_dump'', PyDict [(PyStr ''id'', PyInt 1)])] None None None)
     = PyDict [(PyStr ''id'', PyInt 1)] \<and>
   as_json False (PyObject [(''__iter__'', PyNone)] (Some [(PyStr ''a'', PyInt 1)]) None None)
     = PyDict [(PyStr ''a'', PyInt 1)] \<and>
   as_json False (PyObject [(''__iter__'', PyNone), (''__dict__'', PyDict [(PyStr ''x'', PyInt 2)])]
                   None None None)
     = PyDict [(PyStr ''x'', PyInt 2)] \<and>
   as_json False (PyObject [] None None None) = PyObject [] None None None"
  using
    as_json_cases [where obj = "PyStr ''AAPL''"]
    as_json_cases [where obj = "PyInt 1"]
    as_json_cases [where obj = "PyObject [(''model_dump'', PyDict [(PyStr ''id'', PyInt 1)])] None None None"
                     and dumped = "PyDict [(PyStr ''id'', PyInt 1)]"]
    as_json_cases [where obj = "PyObject [(''__iter__'', PyNone)] (Some [(PyStr ''a'', PyInt 1)]) None None"
                     and items = "[(PyStr ''a'', PyInt 1)]"]
    as_json_cases [where obj = "PyObject [(''__iter__'', PyNone), (''__dict__'', PyDict [(PyStr ''x'', PyInt 2)])]
                   None None None"]
    as_json_cases [where obj = "PyObject [] None None None"]
  by simp

section \<open>The timeframe parser\<close>

lemmas tf_parse_unfold =
  tf_parse_def py_bind_def py_lift_def py_return_def py_raise_def int_of_digits_def
  lookup_unit_def unit_token_def unit_str_def unit_table_def lower_def lower_char_def
  isupper_def isalpha_def isdigit_def digit_val_def

text \<open>
  The key looked up has three letters at most, so the table's entry \<open>hour\<close> is never
  found: \<open>1Hour\<close> is refused with the key \<open>hou\<close>. The first three letters decide, so
  \<open>5Minutes\<close> is read as five minutes.
\<close>

lemma unit_token_never_hour: "unit_token s \<noteq> ''hour''"
proof
  assume "unit_token s = ''hour''"
  then have "length (unit_token s) = 4" by simp
  then show False by (simp add: unit_token_def)
qed

lemma tf_parse_hour_refused:
  "tf_parse env (TfStr ''1Hour'') u st = (Inl (Local (KeyError (PyStr ''hou''))), st)"
  by (simp add: tf_parse_unfold)

lemma tf_parse_first_three_letters:
  "tf_parse env (TfStr ''5Minutes'') u st
     = invoke env (New ''TimeFrame'' [Obj (PyInt 5), TUnit Minute] []) st"
  by (simp add: tf_parse_unfold)



section \<open>The trailing-stop guard\<close>

text \<open>
  C10: with \<open>trail_percent = 0.0\<close> and no \<open>trail_price\<close>, \<open>trailing_stop\<close> raises its
  validation error, whatever the other arguments, and calls nothing: the guard tests the
  two arguments for truth, and \<open>0.0\<close> is false.
\<close>

theorem trailing_stop_zero_percent_raises:
  "trailing_stop env symbol qty (Some 0) None side tif st
     = (Inl (Local (ValueError ''Specify trail_percent or trail_price.'')), st)"
  by (simp add: trailing_stop_def opt_float_def float_truthy_def py_raise_def trail_msg_def)

theorem trailing_stop_zero_percent_raises_witness:
  "trailing_stop (demo_env [] (Inr PyNone)) ''SPY'' 0x3FF0000000000000 (Some 0) None ''sell''
     (TifStr ''gtc'') (demo_state False)
     = (Inl (Local (ValueError ''Specify trail_percent or trail_price.'')), demo_state False)"
  using trailing_stop_zero_percent_raises
          [of "demo_env [] (Inr PyNone)" "''SPY''" "0x3FF0000000000000" "''sell''" "TifStr ''gtc''"
              "demo_state False"]
  by simp

section \<open>Where errors come from\<close>

lemmas py_defs = py_bind_def py_return_def py_raise_def py_lift_def py_get_def invoke_def

lemma outcome_ok_nil_Inr: "outcome_ok P [] (Inr x)"
  by (simp add: outcome_ok_def)

lemma outcome_ok_nil_Local: "P e \<Longrightarrow> outcome_ok P [] (Inl (Local e))"
  by (simp add: outcome_ok_def)

lemma outcome_ok_append:
  assumes "outcome_ok P new1 (Inr x)" and "outcome_ok Q new2 res"
  shows "outcome_ok Q (new1 @ new2) res"
proof -
  from assms(1) have clean: "\<And>c e. (c, Inl e) \<notin> set new1"
    by (auto simp: outcome_ok_def)
  from assms(2) have a: "\<And>e. res = Inl (Sdk e) \<Longrightarrow> new2 \<noteq> [] \<and> snd (last new2) = Inl e"
    and b: "\<And>c e. (c, Inl e) \<in> set new2 \<Longrightarrow> res = Inl (Sdk e)"
    and c: "\<And>x. res = Inl (Local x) \<Longrightarrow> Q x"
    by (simp_all add: outcome_ok_def)
  show ?thesis
    unfolding outcome_ok_def
  proof (intro conjI allI impI)
    fix e assume "res = Inl (Sdk e)"
    from a [OF this] show "new1 @ new2 \<noteq> []" by simp
  next
    fix e assume "res = Inl (Sdk e)"
    from a [OF this] show "snd (last (new1 @ new2)) = Inl e" by simp
  next
    fix c e assume "(c, Inl e) \<in> set (new1 @ new2)"
    with clean have "(c, Inl e) \<in> set new2" by auto
    then show "res = Inl (Sdk e)" by (rule b)
  next
    fix x assume "res = Inl (Local x)"
    then show "Q x" by (rule c)
  qed
qed


lemma faithfulI:
  "(\<And>st. \<exists>new. calls (snd (m st)) = calls st @ new \<and> outcome_ok P new (fst (m st))) \<Longrightarrow> faithful P m"
  by (simp add: faithful_def)

lemma faithfulD:
  "faithful P m \<Longrightarrow> \<exists>new. calls (snd (m st)) = calls st @ new \<and> outcome_ok P new (fst (m st))"
  by (simp add: faithful_def)

lemma faithful_return: "faithful P (py_return x)"
  by (rule faithfulI) (simp add: py_return_def outcome_ok_nil_Inr)

lemma faithful_get: "faithful P (py_get f)"
  by (rule faithfulI) (simp add: py_get_def outcome_ok_nil_Inr)

lemma faithful_set_ws: "faithful P (set_ws h)"
  by (rule faithfulI) (simp add: set_ws_def outcome_ok_nil_Inr)

lemma faithful_raise: "P e \<Longrightarrow> faithful P (py_raise e)"
  by (rule faithfulI) (simp add: py_raise_def outcome_ok_nil_Local)


lemma faithful_invoke: "faithful P (invoke env c)"
proof (rule faithfulI)
  fix st :: "'a state"
  obtain res r' where s: "sdk env c (remote st) = (res, r')" by (cases "sdk env c (remote st)")
  have "outcome_ok P [(c, res)] (case res of Inl e \<Rightarrow> Inl (Sdk e) | Inr v \<Rightarrow> Inr v)"
    by (cases res) (simp_all add: outcome_ok_def)
  with s show "\<exists>new. calls (snd (invoke env c st)) = calls st @ new \<and>
                 outcome_ok P new (fst (invoke env c st))"
    by (simp add: invoke_def)
qed

lemma py_bind_Inl: "fst (m st) = Inl e \<Longrightarrow> py_bind m f st = (Inl e, snd (m st))"
  by (cases "m st") (simp add: py_bind_def)

lemma py_bind_Inr: "fst (m st) = Inr x \<Longrightarrow> py_bind m f st = f x (snd (m st))"
  by (cases "m st") (simp add: py_bind_def)

lemma faithful_bind:
  assumes m: "faithful P m" and f: "\<And>x. faithful P (f x)"
  shows "faithful P (py_bind m f)"
proof (rule faithfulI)
  fix st
  from faithfulD [OF m, of st] obtain new1
    where n1: "calls (snd (m st)) = calls st @ new1" and o1: "outcome_ok P new1 (fst (m st))"
    by blast
  show "\<exists>new. calls (snd (py_bind m f st)) = calls st @ new \<and>
          outcome_ok P new (fst (py_bind m f st))"
  proof (cases "fst (m st)")
    case (Inl e)
    then have "py_bind m f st = (Inl e, snd (m st))"
      by (rule py_bind_Inl)
    with n1 o1 Inl show ?thesis
      by (intro exI [of _ new1]) (simp add: outcome_ok_def)
  next
    case (Inr x)
    then have eq: "py_bind m f st = f x (snd (m st))"
      by (rule py_bind_Inr)
    from faithfulD [OF f, of x "snd (m st)"] obtain new2
      where n2: "calls (snd (f x (snd (m st)))) = calls (snd (m st)) @ new2"
        and o2: "outcome_ok P new2 (fst (f x (snd (m st))))"
      by blast
    from o1 Inr have "outcome_ok P new1 (Inr x :: error + 'b)" by simp
    from outcome_ok_append [OF this o2] n1 n2 eq show ?thesis
      by (intro exI [of _ "new1 @ new2"]) simp
  qed
qed


lemmas faithful_steps =
  faithful_bind faithful_get faithful_invoke faithful_return faithful_set_ws

lemma faithful_as_json_self: "faithful P (as_json_self obj)"
  unfolding as_json_self_def by (intro faithful_steps)













lemma faithful_tif_of: "faithful P (tif_of env tif)"
  by (cases tif) (simp_all add: tif_of_def faithful_return faithful_invoke)

lemma faithful_submit: "faithful P (submit env kwargs)"
  unfolding submit_def by (intro faithful_steps faithful_as_json_self)









lemma faithful_trailing_stop:
  "faithful (local_errors (TrailingStop symbol qty trail_percent trail_price side tif))
     (trailing_stop env symbol qty trail_percent trail_price side tif)"
proof (cases "truthy (opt_float trail_percent) \<or> truthy (opt_float trail_price)")
  case True
  then show ?thesis
    by (auto simp: trailing_stop_def intro!: faithful_bind faithful_tif_of faithful_submit)
next
  case False
  then show ?thesis
    by (simp add: trailing_stop_def faithful_raise)
qed
























lemmas demo_defs = demo_env_def demo_state_def sdk_name_def client_obj_def




section \<open>The trailing-stop operation\<close>

lemma submit_calls:
  "\<exists>r rest. calls (snd (submit env kwargs st)) = calls st @ (New ''OrderRequest'' [] kwargs, r) # rest \<and>
     (case r of Inl e \<Rightarrow> rest = []
              | Inr req \<Rightarrow> \<exists>r2. rest = [(Call (trade st) ''submit_order'' [Obj req] [], r2)])"
  by (auto simp: submit_def py_defs as_json_self_def split: prod.splits sum.splits)

lemma trailing_stop_no_local:
  assumes "truthy (opt_float trail_percent) \<or> truthy (opt_float trail_price)"
  shows "fst (trailing_stop env symbol qty trail_percent trail_price side tif st) \<noteq> Inl (Local x)"
proof
  assume l: "fst (trailing_stop env symbol qty trail_percent trail_price side tif st) = Inl (Local x)"
  have f: "faithful (local_errors (TrailingStop symbol qty trail_percent trail_price side tif))
              (trailing_stop env symbol qty trail_percent trail_price side tif)"
    by (rule faithful_trailing_stop)
  from faithfulD [OF f, of st]
  obtain new where "outcome_ok (local_errors (TrailingStop symbol qty trail_percent trail_price side tif))
      new (fst (trailing_stop env symbol qty trail_percent trail_price side tif st))"
    by blast
  with l have "local_errors (TrailingStop symbol qty trail_percent trail_price side tif) x"
    by (simp add: outcome_ok_def)
  with assms show False by simp
qed

text \<open>
  C1, as the claim states it, fails in its second half: with \<open>trail_price = 0.0\<close>
  supplied (and no \<open>trail_percent\<close>) \<open>trailing_stop\<close> raises its validation error and
  submits nothing, since the guard tests the arguments for truth and \<open>0.0\<close> is false.
\<close>

theorem zero_trail_price_counterexample:
  "trailing_stop (demo_env [] (Inr PyNone)) ''SPY'' 0x3FF0000000000000 None (Some 0) ''sell''
     (TifStr ''gtc'') (demo_state False)
     = (Inl (Local (ValueError ''Specify trail_percent or trail_price.'')), demo_state False)"
  by (simp add: trailing_stop_def opt_float_def float_truthy_def py_raise_def trail_msg_def)

text \<open>
  C1, amended: \<open>trailing_stop\<close> fails with its validation error, before any call into the
  SDK, whenever both price triggers are absent, and more generally whenever each is absent
  or zero. When at least one of them is supplied and not zero it raises nothing of its
  own: an error of the time-in-force coercion is the SDK's and ends the operation;
  otherwise the operation is the submission of a request of type \<open>TRAILING_STOP\<close> with
  both trail fields, which builds an \<open>OrderRequest\<close> from these arguments and, when that
  is built, hands it to \<open>submit_order\<close>.
\<close>

theorem trailing_stop_guard:
  "trailing_stop env symbol qty None None side tif st
     = (Inl (Local (ValueError ''Specify trail_percent or trail_price.'')), st) \<and>
   (\<not> truthy (opt_float trail_percent) \<and> \<not> truthy (opt_float trail_price) \<longrightarrow>
      trailing_stop env symbol qty trail_percent trail_price side tif st
        = (Inl (Local (ValueError ''Specify trail_percent or trail_price.'')), st)) \<and>
   (truthy (opt_float trail_percent) \<or> truthy (opt_float trail_price) \<longrightarrow>
      (\<forall>x. fst (trailing_stop env symbol qty trail_percent trail_price side tif st) \<noteq> Inl (Local x)) \<and>
      (\<forall>e st1. tif_of env tif st = (Inl e, st1) \<longrightarrow>
         trailing_stop env symbol qty trail_percent trail_price side tif st = (Inl e, st1)) \<and>
      (\<forall>t st1. tif_of env tif st = (Inr t, st1) \<longrightarrow>
         (let kwargs = [(''symbol'', Obj (PyStr symbol)), (''qty'', Obj (PyFloat qty)),
                        (''side'', Side (side_of side)), (''type'', OType TRAILING_STOP),
                        (''trail_percent'', Obj (opt_float trail_percent)),
                        (''trail_price'', Obj (opt_float trail_price)),
                        (''time_in_force'', Obj t)]
          in trailing_stop env symbol qty trail_percent trail_price side tif st
               = submit env kwargs st1 \<and>
             (\<exists>r rest. calls (snd (submit env kwargs st1))
                         = calls st1 @ (New ''OrderRequest'' [] kwargs, r) # rest \<and>
                (case r of Inl e \<Rightarrow> rest = []
                 | Inr req \<Rightarrow>
                     \<exists>r2. rest = [(Call (trade st1) ''submit_order'' [Obj req] [], r2)])))))"
proof (intro conjI impI allI)
  show "trailing_stop env symbol qty None None side tif st
     = (Inl (Local (ValueError ''Specify trail_percent or trail_price.'')), st)"
    by (simp add: trailing_stop_def opt_float_def py_raise_def trail_msg_def)
next
  assume "\<not> truthy (opt_float trail_percent) \<and> \<not> truthy (opt_float trail_price)"
  then show "trailing_stop env symbol qty trail_percent trail_price side tif st
        = (Inl (Local (ValueError ''Specify trail_percent or trail_price.'')), st)"
    by (simp add: trailing_stop_def py_raise_def trail_msg_def)
next
  fix x
  assume "truthy (opt_float trail_percent) \<or> truthy (opt_float trail_price)"
  then show "fst (trailing_stop env symbol qty trail_percent trail_price side tif st) \<noteq> Inl (Local x)"
    by (rule trailing_stop_no_local)
next
  fix e st1
  assume "truthy (opt_float trail_percent) \<or> truthy (opt_float trail_price)"
    and "tif_of env tif st = (Inl e, st1)"
  then show "trailing_stop env symbol qty trail_percent trail_price side tif st = (Inl e, st1)"
    by (auto simp: trailing_stop_def py_bind_def)
next
  fix t st1
  assume tr: "truthy (opt_float trail_percent) \<or> truthy (opt_float trail_price)"
    and t: "tif_of env tif st = (Inr t, st1)"
  show "let kwargs = [(''symbol'', Obj (PyStr symbol)), (''qty'', Obj (PyFloat qty)),
                        (''side'', Side (side_of side)), (''type'', OType TRAILING_STOP),
                        (''trail_percent'', Obj (opt_float trail_percent)),
                        (''trail_price'', Obj (opt_float trail_price)),
                        (''time_in_force'', Obj t)]
          in trailing_stop env symbol qty trail_percent trail_price side tif st
               = submit env kwargs st1 \<and>
             (\<exists>r rest. calls (snd (submit env kwargs st1))
                         = calls st1 @ (New ''OrderRequest'' [] kwargs, r) # rest \<and>
                (case r of Inl e \<Rightarrow> rest = []
                 | Inr req \<Rightarrow>
                     \<exists>r2. rest = [(Call (trade st1) ''submit_order'' [Obj req] [], r2)]))"
    unfolding Let_def
  proof (rule conjI)
    from tr t show "trailing_stop env symbol qty trail_percent trail_price side tif st
               = submit env [(''symbol'', Obj (PyStr symbol)), (''qty'', Obj (PyFloat qty)),
                        (''side'', Side (side_of side)), (''type'', OType TRAILING_STOP),
                        (''trail_percent'', Obj (opt_float trail_percent)),
                        (''trail_price'', Obj (opt_float trail_price)),
                        (''time_in_force'', Obj t)] st1"
      by (auto simp: trailing_stop_def py_bind_def)
  qed (rule submit_calls)
qed

theorem trailing_stop_guard_witness:
  "trailing_stop (demo_env [] (Inr PyNone)) ''SPY'' 0x3FF0000000000000 None None ''sell''
     (TifStr ''gtc'') (demo_state False)
     = (Inl (Local (ValueError ''Specify trail_percent or trail_price.'')), demo_state False) \<and>
   (\<forall>x. fst (trailing_stop (demo_env [] (Inr PyNone)) ''SPY'' 0x3FF0000000000000
                 (Some 0x4014000000000000) None ''sell'' (TifStr ''gtc'') (demo_state False))
          \<noteq> Inl (Local x)) \<and>
   map fst (calls (snd (trailing_stop (demo_env [] (Inr PyNone)) ''SPY'' 0x3FF0000000000000
                 (Some 0x4014000000000000) None ''sell'' (TifStr ''gtc'') (demo_state False))))
     = [New ''TimeInForce'' [Obj (PyStr ''gtc'')] [],
        New ''OrderRequest'' []
          [(''symbol'', Obj (PyStr ''SPY'')), (''qty'', Obj (PyFloat 0x3FF0000000000000)),
           (''side'', Side SELL), (''type'', OType TRAILING_STOP),
           (''trail_percent'', Obj (PyFloat 0x4014000000000000)),
           (''trail_price'', Obj PyNone), (''time_in_force'', Obj PyNone)],
        Call client_obj ''submit_order'' [Obj PyNone] []]"
proof -
  have t: "truthy (opt_float (Some 0x4014000000000000)) \<or> truthy (opt_float None)"
    by (simp add: opt_float_def float_truthy_def)
  have c: "map fst (calls (snd (trailing_stop (demo_env [] (Inr PyNone)) ''SPY'' 0x3FF0000000000000
                 (Some 0x4014000000000000) None ''sell'' (TifStr ''gtc'') (demo_state False))))
     = [New ''TimeInForce'' [Obj (PyStr ''gtc'')] [],
        New ''OrderRequest'' []
          [(''symbol'', Obj (PyStr ''SPY'')), (''qty'', Obj (PyFloat 0x3FF0000000000000)),
           (''side'', Side SELL), (''type'', OType TRAILING_STOP),
           (''trail_percent'', Obj (PyFloat 0x4014000000000000)),
           (''trail_price'', Obj PyNone), (''time_in_force'', Obj PyNone)],
        Call client_obj ''submit_order'' [Obj PyNone] []]"
    by (simp add: trailing_stop_def tif_of_def submit_def as_json_self_def py_defs demo_defs
        opt_float_def float_truthy_def side_of_def startswith_def lower_def lower_char_def
        isupper_def)
  from trailing_stop_guard
         [of "demo_env [] (Inr PyNone)" "''SPY''" "0x3FF0000000000000" "''sell''" "TifStr ''gtc''"
             "demo_state False" "Some 0x4014000000000000" None]
       t c
  show ?thesis by simp
qed

section \<open>Raw mode\<close>



lemmas op_defs =
  get_account_json_def get_positions_def get_position_def portfolio_summary_def submit_def
  market_buy_def market_sell_def limit_order_def stop_loss_def trailing_stop_def
  submit_custom_order_def cancel_order_def cancel_all_orders_def list_orders_def get_order_def
  close_position_def close_all_positions_def list_assets_def get_last_quote_def
  get_last_trade_def get_last_bar_def get_historical_bars_def cash_def buying_power_def
  repr_def tif_of_def












section \<open>The streaming handle\<close>

lemma streams_built_append [simp]: "streams_built (a @ b) = streams_built a @ streams_built b"
  by (simp add: streams_built_def)

lemma streams_built_nil [simp]: "streams_built [] = []"
  by (simp add: streams_built_def)

lemma streams_built_single:
  "streams_built [(c, r)] = (case r of Inr h \<Rightarrow> (if is_stream_ctor c then [h] else []) | Inl e \<Rightarrow> [])"
  by (simp add: streams_built_def)

lemma quietI:
  "(\<And>st. ws (snd (m st)) = ws st \<and> api_key (snd (m st)) = api_key st \<and>
           secret (snd (m st)) = secret st \<and>
           (\<exists>new. calls (snd (m st)) = calls st @ new \<and> streams_built new = [])) \<Longrightarrow> quiet m"
  by (simp add: quiet_def)

lemma quietD:
  "quiet m \<Longrightarrow> ws (snd (m st)) = ws st \<and> api_key (snd (m st)) = api_key st \<and>
           secret (snd (m st)) = secret st \<and>
           (\<exists>new. calls (snd (m st)) = calls st @ new \<and> streams_built new = [])"
  by (simp add: quiet_def)

lemma quiet_return: "quiet (py_return x)"
  by (simp add: quiet_def py_return_def)

lemma quiet_raise: "quiet (py_raise e)"
  by (simp add: quiet_def py_raise_def)

lemma quiet_lift: "quiet (py_lift r)"
  by (cases r) (simp_all add: py_lift_def quiet_raise quiet_return)

lemma quiet_get: "quiet (py_get f)"
  by (simp add: quiet_def py_get_def)

lemma quiet_invoke: "\<not> is_stream_ctor c \<Longrightarrow> quiet (invoke env c)"
  by (rule quietI) (simp add: invoke_def streams_built_single split: prod.splits sum.splits)

lemma quiet_bind:
  assumes m: "quiet m" and f: "\<And>x. quiet (f x)"
  shows "quiet (py_bind m f)"
proof (rule quietI)
  fix st
  from quietD [OF m, of st] obtain new1 where
    w1: "ws (snd (m st)) = ws st" "api_key (snd (m st)) = api_key st" "secret (snd (m st)) = secret st"
    and n1: "calls (snd (m st)) = calls st @ new1" "streams_built new1 = []"
    by blast
  show "ws (snd (py_bind m f st)) = ws st \<and> api_key (snd (py_bind m f st)) = api_key st \<and>
        secret (snd (py_bind m f st)) = secret st \<and>
        (\<exists>new. calls (snd (py_bind m f st)) = calls st @ new \<and> streams_built new = [])"
  proof (cases "fst (m st)")
    case (Inl e)
    then have "py_bind m f st = (Inl e, snd (m st))" by (rule py_bind_Inl)
    with w1 n1 show ?thesis by simp
  next
    case (Inr x)
    then have eq: "py_bind m f st = f x (snd (m st))" by (rule py_bind_Inr)
    from quietD [OF f, of x "snd (m st)"] obtain new2 where
      w2: "ws (snd (f x (snd (m st)))) = ws (snd (m st))"
          "api_key (snd (f x (snd (m st)))) = api_key (snd (m st))"
          "secret (snd (f x (snd (m st)))) = secret (snd (m st))"
      and n2: "calls (snd (f x (snd (m st)))) = calls (snd (m st)) @ new2" "streams_built new2 = []"
      by blast
    have "calls (snd (py_bind m f st)) = calls st @ (new1 @ new2) \<and> streams_built (new1 @ new2) = []"
      using eq n1 n2 by simp
    then have "\<exists>new. calls (snd (py_bind m f st)) = calls st @ new \<and> streams_built new = []"
      by blast
    with eq w1 w2 show ?thesis by simp
  qed
qed

lemma not_stream_ctor_Call: "\<not> is_stream_ctor (Call obj method args kwargs)"
  by (simp add: is_stream_ctor_def)

lemma not_stream_ctor_New: "cls \<noteq> ''StockDataStream'' \<Longrightarrow> \<not> is_stream_ctor (New cls args kwargs)"
  by (simp add: is_stream_ctor_def)

lemmas quiet_steps =
  quiet_bind quiet_get quiet_return quiet_raise quiet_lift quiet_invoke not_stream_ctor_Call

lemma quiet_as_json_self: "quiet (as_json_self obj)"
  unfolding as_json_self_def by (intro quiet_steps)

lemma quiet_as_json_each: "quiet (as_json_each obj)"
  unfolding as_json_each_def by (intro quiet_steps)

lemma quiet_tif_of: "quiet (tif_of env tif)"
  by (cases tif) (simp_all add: tif_of_def quiet_return quiet_invoke is_stream_ctor_def)

lemma quiet_submit: "quiet (submit env kwargs)"
  unfolding submit_def
  by (intro quiet_steps quiet_as_json_self not_stream_ctor_New) simp

lemma quiet_tf_parse: "quiet (tf_parse env timeframe unit)"
  by (cases timeframe)
     (auto simp: tf_parse_def is_stream_ctor_def intro!: quiet_bind quiet_lift quiet_invoke)

lemma quiet_subscribe_each: "quiet (subscribe_each env callback symbols)"
  by (induction symbols) (auto intro!: quiet_steps)

lemma quiet_get_account_json: "quiet (get_account_json env)"
  unfolding get_account_json_def by (intro quiet_steps quiet_as_json_self)

lemma quiet_get_positions: "quiet (get_positions env)"
  unfolding get_positions_def by (intro quiet_steps quiet_as_json_each)

lemmas quiet_parts =
  quiet_as_json_self quiet_as_json_each quiet_tif_of quiet_submit quiet_tf_parse
  quiet_get_account_json quiet_get_positions

lemma quiet_perform:
  "(\<And>symbols callback. op \<noteq> SubscribePrice symbols callback) \<Longrightarrow> quiet (perform env op)"
  by (cases op)
     (auto simp: op_defs is_stream_ctor_def simp del: tif_of_def
        intro!: quiet_steps quiet_parts)

lemma ensure_ws_truthy: "truthy (ws st) \<Longrightarrow> ensure_ws env st = (Inr (), st)"
  by (simp add: ensure_ws_def py_defs)

lemma ensure_ws_falsy:
  assumes "\<not> truthy (ws st)"
  shows "ensure_ws env st =
     (let c = New ''StockDataStream'' [Obj (PyStr (api_key st)), Obj (PyStr (secret st))] [] in
      case sdk env c (remote st) of
        (Inl e, r') \<Rightarrow> (Inl (Sdk e), st\<lparr>calls := calls st @ [(c, Inl e)], remote := r'\<rparr>)
      | (Inr h, r') \<Rightarrow> (Inr (), st\<lparr>calls := calls st @ [(c, Inr h)], remote := r', ws := h\<rparr>))"
  using assms
  by (simp add: ensure_ws_def py_defs set_ws_def Let_def split: prod.splits sum.splits)

lemma subscribe_each_trace:
  "subscribe_each env callback symbols st = (res, st') \<Longrightarrow>
     ws st' = ws st \<and>
     (\<exists>new. calls st' = calls st @ new \<and>
        prefix (map fst new)
          (map (\<lambda>symbol. Call (ws st) ''subscribe_bars'' [Obj callback, Obj (PyStr symbol)] []) symbols) \<and>
        (case res of
           Inr u \<Rightarrow> map fst new =
              map (\<lambda>symbol. Call (ws st) ''subscribe_bars'' [Obj callback, Obj (PyStr symbol)] []) symbols
         | Inl err \<Rightarrow> \<exists>c e. (c, Inl e) \<in> set new \<and> (\<exists>h a. c = Call h ''subscribe_bars'' a [])))"
proof (induction symbols arbitrary: st)
  case Nil
  then show ?case by (auto simp: py_return_def)
next
  case (Cons symbol symbols)
  let ?c = "Call (ws st) ''subscribe_bars'' [Obj callback, Obj (PyStr symbol)] []"
  obtain r r' where s: "sdk env ?c (remote st) = (r, r')" by (cases "sdk env ?c (remote st)")
  let ?st1 = "st\<lparr>calls := calls st @ [(?c, r)], remote := r'\<rparr>"
  show ?case
  proof (cases r)
    case (Inl e)
    with Cons.prems s have "res = Inl (Sdk e)" "st' = ?st1"
      by (simp_all add: py_defs)
    then show ?thesis using Inl by auto
  next
    case (Inr v)
    with Cons.prems s have rest: "subscribe_each env callback symbols ?st1 = (res, st')"
      by (simp add: py_defs)
    have w1: "ws ?st1 = ws st" and c1: "calls ?st1 = calls st @ [(?c, r)]" by simp_all
    from Cons.IH [OF rest] obtain new where
      w: "ws st' = ws ?st1" and n: "calls st' = calls ?st1 @ new"
      and p: "prefix (map fst new)
          (map (\<lambda>symbol. Call (ws ?st1) ''subscribe_bars'' [Obj callback, Obj (PyStr symbol)] []) symbols)"
      and c: "(case res of
           Inr u \<Rightarrow> map fst new =
              map (\<lambda>symbol. Call (ws ?st1) ''subscribe_bars'' [Obj callback, Obj (PyStr symbol)] []) symbols
         | Inl err \<Rightarrow> \<exists>c e. (c, Inl e) \<in> set new \<and> (\<exists>h a. c = Call h ''subscribe_bars'' a []))"
      by blast
    show ?thesis
    proof (intro conjI exI [of _ "(?c, r) # new"])
      show "ws st' = ws st" using w w1 by simp
      show "calls st' = calls st @ (?c, r) # new" using n c1 by simp
      show "prefix (map fst ((?c, r) # new))
          (map (\<lambda>symbol. Call (ws st) ''subscribe_bars'' [Obj callback, Obj (PyStr symbol)] [])
             (symbol # symbols))"
        using p unfolding w1 by simp
      show "case res of
           Inr u \<Rightarrow> map fst ((?c, r) # new) =
              map (\<lambda>symbol. Call (ws st) ''subscribe_bars'' [Obj callback, Obj (PyStr symbol)] [])
                (symbol # symbols)
         | Inl err \<Rightarrow> \<exists>c e. (c, Inl e) \<in> set ((?c, r) # new) \<and>
                       (\<exists>h a. c = Call h ''subscribe_bars'' a [])"
        using c unfolding w1 by (cases res) auto
    qed
  qed
qed

lemma subscribe_then_run:
  assumes run: "py_bind (subscribe_each env callback symbols) (\<lambda>u.
                py_bind (py_get ws) (\<lambda>h.
                py_bind (invoke env (Call h ''run'' [] [])) (\<lambda>r.
                py_return PyNone))) s1 = (res, st')"
  shows "ws st' = ws s1 \<and>
     (\<exists>new. calls st' = calls s1 @ new \<and>
        prefix (map fst new)
          (map (\<lambda>symbol. Call (ws s1) ''subscribe_bars'' [Obj callback, Obj (PyStr symbol)] []) symbols
             @ [Call (ws s1) ''run'' [] []]) \<and>
        ((\<forall>c e. (c, Inl e) \<in> set new \<longrightarrow> c = Call (ws s1) ''run'' [] []) \<longrightarrow>
           map fst new =
             map (\<lambda>symbol. Call (ws s1) ''subscribe_bars'' [Obj callback, Obj (PyStr symbol)] []) symbols
               @ [Call (ws s1) ''run'' [] []]))"
proof -
  let ?subs = "map (\<lambda>symbol. Call (ws s1) ''subscribe_bars'' [Obj callback, Obj (PyStr symbol)] []) symbols"
  let ?run = "Call (ws s1) ''run'' [] []"
  obtain r1 s2 where e: "subscribe_each env callback symbols s1 = (r1, s2)"
    by (cases "subscribe_each env callback symbols s1")
  from subscribe_each_trace [OF e] obtain new1 where
    w: "ws s2 = ws s1" and n: "calls s2 = calls s1 @ new1" and p: "prefix (map fst new1) ?subs"
    and c: "case r1 of Inr u \<Rightarrow> map fst new1 = ?subs
            | Inl err \<Rightarrow> \<exists>c e. (c, Inl e) \<in> set new1 \<and> (\<exists>h a. c = Call h ''subscribe_bars'' a [])"
    by blast
  show ?thesis
  proof (cases r1)
    case (Inl err)
    with run e have "res = Inl err" "st' = s2" by (simp_all add: py_bind_def)
    moreover from c Inl obtain c0 e0 where "(c0, Inl e0) \<in> set new1" "c0 \<noteq> ?run" by auto
    ultimately show ?thesis using w n p
      by (intro conjI exI [of _ new1]) (auto intro: prefix_prefix)
  next
    case (Inr u)
    obtain r r' where s: "sdk env ?run (remote s2) = (r, r')" by (cases "sdk env ?run (remote s2)")
    from run e Inr s w have st': "st' = s2\<lparr>calls := calls s2 @ [(?run, r)], remote := r'\<rparr>"
      by (auto simp: py_defs split: sum.splits)
    from c Inr have "map fst new1 = ?subs" by simp
    with st' w n show ?thesis
      by (intro conjI exI [of _ "new1 @ [(?run, r)]"]) simp_all
  qed
qed

text \<open>
  C8: the calls one \<open>subscribe_price\<close> makes are, in this order: the construction of the
  handle when the object has none, \<open>subscribe_bars(callback, symbol)\<close> once for each
  symbol the iterable yields, then \<open>run\<close>, on the handle the object holds. Whatever
  happens they are an initial part of that schedule; they are the whole schedule, with
  \<open>run\<close> entered once and last, when no call before \<open>run\<close> raised.
\<close>

theorem subscribe_price_schedule:
  assumes "subscribe_price env symbols callback st = (res, st')"
  shows "\<exists>new. calls st' = calls st @ new \<and>
     prefix (map fst new)
       ((if truthy (ws st) then []
         else [New ''StockDataStream'' [Obj (PyStr (api_key st)), Obj (PyStr (secret st))] []])
        @ map (\<lambda>symbol. Call (ws st') ''subscribe_bars'' [Obj callback, Obj (PyStr symbol)] []) symbols
        @ [Call (ws st') ''run'' [] []]) \<and>
     ((\<forall>c e. (c, Inl e) \<in> set new \<longrightarrow> c = Call (ws st') ''run'' [] []) \<longrightarrow>
        map fst new =
          (if truthy (ws st) then []
           else [New ''StockDataStream'' [Obj (PyStr (api_key st)), Obj (PyStr (secret st))] []])
          @ map (\<lambda>symbol. Call (ws st') ''subscribe_bars'' [Obj callback, Obj (PyStr symbol)] []) symbols
          @ [Call (ws st') ''run'' [] []])"
proof (cases "truthy (ws st)")
  case True
  with assms have "py_bind (subscribe_each env callback symbols) (\<lambda>u.
                py_bind (py_get ws) (\<lambda>h.
                py_bind (invoke env (Call h ''run'' [] [])) (\<lambda>r.
                py_return PyNone))) st = (res, st')"
    by (simp add: subscribe_price_def py_bind_def [of "ensure_ws env"] ensure_ws_truthy)
  from subscribe_then_run [OF this] True show ?thesis by auto
next
  case False
  let ?c = "New ''StockDataStream'' [Obj (PyStr (api_key st)), Obj (PyStr (secret st))] []"
  obtain r0 r' where s: "sdk env ?c (remote st) = (r0, r')" by (cases "sdk env ?c (remote st)")
  show ?thesis
  proof (cases r0)
    case (Inl e)
    with assms False s have "res = Inl (Sdk e)"
      "st' = st\<lparr>calls := calls st @ [(?c, Inl e)], remote := r'\<rparr>"
      by (simp_all add: subscribe_price_def py_bind_def [of "ensure_ws env"] ensure_ws_falsy)
    with False show ?thesis
      by (intro exI [of _ "[(?c, Inl e)]"]) simp
  next
    case (Inr h)
    let ?s1 = "st\<lparr>calls := calls st @ [(?c, Inr h)], remote := r', ws := h\<rparr>"
    from assms False s Inr have "py_bind (subscribe_each env callback symbols) (\<lambda>u.
                py_bind (py_get ws) (\<lambda>h.
                py_bind (invoke env (Call h ''run'' [] [])) (\<lambda>r.
                py_return PyNone))) ?s1 = (res, st')"
      by (simp add: subscribe_price_def py_bind_def [of "ensure_ws env"] ensure_ws_falsy)
    from subscribe_then_run [OF this] obtain new where
      w: "ws st' = h" and n: "calls st' = calls st @ (?c, Inr h) # new"
      and p: "prefix (map fst new)
          (map (\<lambda>symbol. Call h ''subscribe_bars'' [Obj callback, Obj (PyStr symbol)] []) symbols
             @ [Call h ''run'' [] []])"
      and q: "(\<forall>c e. (c, Inl e) \<in> set new \<longrightarrow> c = Call h ''run'' [] []) \<longrightarrow>
           map fst new =
             map (\<lambda>symbol. Call h ''subscribe_bars'' [Obj callback, Obj (PyStr symbol)] []) symbols
               @ [Call h ''run'' [] []]"
      by auto
    from False w n p q show ?thesis
      by (intro exI [of _ "(?c, Inr h) # new"]) auto
  qed
qed

theorem subscribe_price_schedule_witness:
  "map fst (calls (snd (subscribe_price (demo_env [(''StockDataStream'', Inr client_obj)] (Inr PyNone))
                          [''AAPL'', ''MSFT''] (PyStr ''on_bar'') (demo_state False))))
     = [New ''StockDataStream'' [Obj (PyStr ''key''), Obj (PyStr ''secret'')] [],
        Call client_obj ''subscribe_bars'' [Obj (PyStr ''on_bar''), Obj (PyStr ''AAPL'')] [],
        Call client_obj ''subscribe_bars'' [Obj (PyStr ''on_bar''), Obj (PyStr ''MSFT'')] [],
        Call client_obj ''run'' [] []]"
proof -
  let ?E = "demo_env [(''StockDataStream'', Inr client_obj)] (Inr PyNone)"
  let ?r = "subscribe_price ?E [''AAPL'', ''MSFT''] (PyStr ''on_bar'') (demo_state False)"
  have ev: "fst ?r = Inr PyNone" "ws (snd ?r) = client_obj"
    "\<forall>c e. (c, Inl e) \<notin> set (calls (snd ?r))"
    by (simp_all add: subscribe_price_def ensure_ws_def set_ws_def py_defs demo_env_def
        demo_state_def sdk_name_def)
  have "?r = (fst ?r, snd ?r)" by simp
  from subscribe_price_schedule [OF this] ev show ?thesis
    by (auto simp: demo_state_def)
qed

section \<open>The life of the streaming handle\<close>

lemma streams_built_Cons:
  "streams_built ((c, r) # rest) =
     (case r of Inr h \<Rightarrow> (if is_stream_ctor c then [h] else []) | Inl e \<Rightarrow> []) @ streams_built rest"
  by (simp add: streams_built_def)

lemma is_stream_ctor_New: "is_stream_ctor (New ''StockDataStream'' args kwargs)"
  by (simp add: is_stream_ctor_def)

lemma init_fields:
  assumes "init env key secret_key paper raw_data r = Inr st0"
  shows "ws st0 = PyNone \<and> streams_built (calls st0) = [] \<and> api_key st0 = key \<and>
         secret st0 = secret_key \<and> raw st0 = raw_data"
  using assms
  by (auto simp: init_def Let_def streams_built_Cons is_stream_ctor_def
      split: prod.splits sum.splits)

lemma quiet_after_ensure:
  "quiet (py_bind (subscribe_each env callback symbols) (\<lambda>u.
          py_bind (py_get ws) (\<lambda>h.
          py_bind (invoke env (Call h ''run'' [] [])) (\<lambda>r.
          py_return PyNone))))"
  by (intro quiet_steps quiet_subscribe_each)

lemma subscribe_price_handle:
  assumes "subscribe_price env symbols callback st = (res, st')"
  shows "api_key st' = api_key st \<and> secret st' = secret st \<and>
     (truthy (ws st) \<longrightarrow> ws st' = ws st \<and> streams_built (calls st') = streams_built (calls st)) \<and>
     (\<not> truthy (ws st) \<longrightarrow>
        (\<exists>r0 rest. calls st' = calls st @
             (New ''StockDataStream'' [Obj (PyStr (api_key st)), Obj (PyStr (secret st))] [], r0) # rest \<and>
           streams_built rest = [] \<and> fst (sdk env (New ''StockDataStream'' [Obj (PyStr (api_key st)), Obj (PyStr (secret st))] []) (remote st)) = r0 \<and>
           (case r0 of Inr h \<Rightarrow> ws st' = h | Inl e \<Rightarrow> ws st' = ws st \<and> rest = [])))"
proof (cases "truthy (ws st)")
  case True
  let ?m = "py_bind (subscribe_each env callback symbols) (\<lambda>u.
          py_bind (py_get ws) (\<lambda>h.
          py_bind (invoke env (Call h ''run'' [] [])) (\<lambda>r.
          py_return PyNone)))"
  from assms True have "?m st = (res, st')"
    by (simp add: subscribe_price_def py_bind_def [of "ensure_ws env"] ensure_ws_truthy)
  with quietD [OF quiet_after_ensure, of env callback symbols st] True show ?thesis
    by auto
next
  case False
  let ?c = "New ''StockDataStream'' [Obj (PyStr (api_key st)), Obj (PyStr (secret st))] []"
  let ?m = "py_bind (subscribe_each env callback symbols) (\<lambda>u.
          py_bind (py_get ws) (\<lambda>h.
          py_bind (invoke env (Call h ''run'' [] [])) (\<lambda>r.
          py_return PyNone)))"
  obtain r0 r' where s: "sdk env ?c (remote st) = (r0, r')" by (cases "sdk env ?c (remote st)")
  show ?thesis
  proof (cases r0)
    case (Inl e)
    with assms False s have "st' = st\<lparr>calls := calls st @ [(?c, Inl e)], remote := r'\<rparr>"
      by (simp add: subscribe_price_def py_bind_def [of "ensure_ws env"] ensure_ws_falsy)
    with False Inl s show ?thesis by simp
  next
    case (Inr h)
    let ?s1 = "st\<lparr>calls := calls st @ [(?c, Inr h)], remote := r', ws := h\<rparr>"
    from assms False s Inr have "?m ?s1 = (res, st')"
      by (simp add: subscribe_price_def py_bind_def [of "ensure_ws env"] ensure_ws_falsy)
    with quietD [OF quiet_after_ensure, of env callback symbols ?s1] obtain new where
      "ws st' = h" "api_key st' = api_key st" "secret st' = secret st"
      "calls st' = calls st @ (?c, Inr h) # new" "streams_built new = []"
      by auto
    with False Inr s show ?thesis by simp
  qed
qed

lemma perform_other:
  assumes "\<And>symbols callback. op \<noteq> SubscribePrice symbols callback"
    and "perform env op st = (res, st')"
  shows "ws st' = ws st \<and> api_key st' = api_key st \<and> secret st' = secret st \<and>
         streams_built (calls st') = streams_built (calls st)"
  using quietD [OF quiet_perform [OF assms(1)], of env st] assms(2) by auto

lemma perform_keeps_handle:
  assumes "truthy (ws st)" and "perform env op st = (res, st')"
  shows "ws st' = ws st \<and> streams_built (calls st') = streams_built (calls st)"
proof (cases "\<exists>symbols callback. op = SubscribePrice symbols callback")
  case True
  then obtain symbols callback where "op = SubscribePrice symbols callback" by blast
  with assms subscribe_price_handle [of env symbols callback st res st'] show ?thesis by simp
next
  case False
  then have "\<And>symbols callback. op \<noteq> SubscribePrice symbols callback" by blast
  from perform_other [OF this assms(2)] show ?thesis by simp
qed

lemma perform_keys:
  assumes "perform env op st = (res, st')"
  shows "api_key st' = api_key st \<and> secret st' = secret st"
proof (cases "\<exists>symbols callback. op = SubscribePrice symbols callback")
  case True
  then obtain symbols callback where "op = SubscribePrice symbols callback" by blast
  with assms subscribe_price_handle [of env symbols callback st res st'] show ?thesis by simp
next
  case False
  then have "\<And>symbols callback. op \<noteq> SubscribePrice symbols callback" by blast
  from perform_other [OF this assms] show ?thesis by simp
qed

lemma handle_inv_step:
  assumes sound: "stream_ctor_sound env" and inv: "handle_inv st"
    and step: "perform env op st = (res, st')"
  shows "handle_inv st'"
proof (cases "truthy (ws st)")
  case True
  from perform_keeps_handle [OF True step] inv True show ?thesis
    by (simp add: handle_inv_def)
next
  case False
  with inv have none: "streams_built (calls st) = []" "ws st = PyNone"
    by (auto simp: handle_inv_def)
  show ?thesis
  proof (cases "\<exists>symbols callback. op = SubscribePrice symbols callback")
    case no: False
    then have "\<And>symbols callback. op \<noteq> SubscribePrice symbols callback" by blast
    from perform_other [OF this step] none show ?thesis by (simp add: handle_inv_def)
  next
    case True
    then obtain symbols callback where op: "op = SubscribePrice symbols callback" by blast
    let ?c = "New ''StockDataStream'' [Obj (PyStr (api_key st)), Obj (PyStr (secret st))] []"
    from subscribe_price_handle [of env symbols callback st res st'] step op False
    obtain r0 rest where c: "calls st' = calls st @ (?c, r0) # rest" and q: "streams_built rest = []"
      and r0: "fst (sdk env ?c (remote st)) = r0"
      and h: "case r0 of Inr h \<Rightarrow> ws st' = h | Inl e \<Rightarrow> ws st' = ws st \<and> rest = []"
      by auto
    show ?thesis
    proof (cases r0)
      case (Inl e)
      with c q h none show ?thesis
        by (simp add: handle_inv_def streams_built_Cons)
    next
      case (Inr hd)
      with r0 have "sdk env ?c (remote st) = (Inr hd, snd (sdk env ?c (remote st)))"
        by (cases "sdk env ?c (remote st)") simp
      with sound is_stream_ctor_New have "truthy hd"
        unfolding stream_ctor_sound_def by blast
      with Inr c q h none show ?thesis
        by (simp add: handle_inv_def streams_built_Cons is_stream_ctor_New)
    qed
  qed
qed

lemma run_ops_inv:
  "stream_ctor_sound env \<Longrightarrow> handle_inv st \<Longrightarrow> handle_inv (run_ops env ops st)"
proof (induction ops arbitrary: st)
  case Nil
  then show ?case by simp
next
  case (Cons op ops)
  have "perform env op st = (fst (perform env op st), snd (perform env op st))" by simp
  from handle_inv_step [OF Cons.prems(1) Cons.prems(2) this]
  have "handle_inv (snd (perform env op st))" .
  from Cons.IH [OF Cons.prems(1) this] show ?case by simp
qed

lemma run_ops_keys:
  "api_key (run_ops env ops st) = api_key st \<and> secret (run_ops env ops st) = secret st"
proof (induction ops arbitrary: st)
  case Nil
  then show ?case by simp
next
  case (Cons op ops)
  have "perform env op st = (fst (perform env op st), snd (perform env op st))" by simp
  from perform_keys [OF this] show ?case by (simp add: Cons.IH)
qed

text \<open>
  C7. For an object built by \<open>__init__\<close>, in any state \<open>st\<close> a caller can bring it to
  by invoking operations, and for any operation invoked there (ending in \<open>st'\<close>):
  \<^item> the handle is lazy: after \<open>__init__\<close> the object holds none and none was built;
  \<^item> it is created at most once: either no handle was built and the object holds none, or
    exactly one was built and it is the one the object holds, and after the operation still
    at most one was built;
  \<^item> no operation other than \<open>subscribe_price\<close> assigns to it or builds one;
  \<^item> once the object holds a handle, every operation (a later \<open>subscribe_price\<close> too)
    leaves it in place and builds no other: it is reused and never torn down;
  \<^item> a \<open>subscribe_price\<close> on an object without a handle first calls the constructor
    with the object's key and secret, and the handle it returns is the one the object
    holds afterwards.
  The SDK's part is assumed: what the constructor returns tests true.
\<close>

theorem stream_handle_created_once:
  assumes sound: "stream_ctor_sound env"
    and init: "init env key secret_key paper raw_data r = Inr st0"
    and reach: "st = run_ops env ops st0"
    and step: "perform env op st = (res, st')"
  shows "ws st0 = PyNone \<and> streams_built (calls st0) = [] \<and>
     (streams_built (calls st) = [] \<and> ws st = PyNone \<or>
      streams_built (calls st) = [ws st] \<and> truthy (ws st)) \<and>
     length (streams_built (calls st')) \<le> 1 \<and>
     ((\<forall>symbols callback. op \<noteq> SubscribePrice symbols callback) \<longrightarrow>
        ws st' = ws st \<and> streams_built (calls st') = streams_built (calls st)) \<and>
     (truthy (ws st) \<longrightarrow>
        ws st' = ws st \<and> streams_built (calls st') = streams_built (calls st)) \<and>
     ((\<exists>symbols callback. op = SubscribePrice symbols callback) \<and> ws st = PyNone \<longrightarrow>
        (\<exists>r0 rest. calls st' = calls st @
             (New ''StockDataStream'' [Obj (PyStr key), Obj (PyStr secret_key)] [], r0) # rest \<and>
           streams_built rest = [] \<and>
           (case r0 of Inr h \<Rightarrow> ws st' = h \<and> streams_built (calls st') = [h]
                     | Inl e \<Rightarrow> ws st' = PyNone \<and> rest = [])))"
proof -
  from init_fields [OF init] have i: "ws st0 = PyNone" "streams_built (calls st0) = []"
    "api_key st0 = key" "secret st0 = secret_key" by simp_all
  then have "handle_inv st0" by (simp add: handle_inv_def)
  with sound reach have inv: "handle_inv st" by (simp add: run_ops_inv)
  from handle_inv_step [OF sound inv step] have inv': "handle_inv st'" .
  from run_ops_keys [of env ops st0] reach i have k: "api_key st = key" "secret st = secret_key"
    by simp_all
  have other: "(\<forall>symbols callback. op \<noteq> SubscribePrice symbols callback) \<longrightarrow>
        ws st' = ws st \<and> streams_built (calls st') = streams_built (calls st)"
    using perform_other [OF _ step] by blast
  have keep: "truthy (ws st) \<longrightarrow>
        ws st' = ws st \<and> streams_built (calls st') = streams_built (calls st)"
    using perform_keeps_handle [OF _ step] by blast
  have first: "(\<exists>symbols callback. op = SubscribePrice symbols callback) \<and> ws st = PyNone \<longrightarrow>
        (\<exists>r0 rest. calls st' = calls st @
             (New ''StockDataStream'' [Obj (PyStr key), Obj (PyStr secret_key)] [], r0) # rest \<and>
           streams_built rest = [] \<and>
           (case r0 of Inr h \<Rightarrow> ws st' = h \<and> streams_built (calls st') = [h]
                     | Inl e \<Rightarrow> ws st' = PyNone \<and> rest = []))"
  proof (intro impI, elim conjE exE)
    fix symbols callback
    assume op: "op = SubscribePrice symbols callback" and none: "ws st = PyNone"
    let ?c = "New ''StockDataStream'' [Obj (PyStr key), Obj (PyStr secret_key)] []"
    from inv none have nb: "streams_built (calls st) = []" by (auto simp: handle_inv_def)
    from subscribe_price_handle [of env symbols callback st res st'] step op none k
    obtain r0 rest where c: "calls st' = calls st @ (?c, r0) # rest" and q: "streams_built rest = []"
      and h: "case r0 of Inr h \<Rightarrow> ws st' = h | Inl e \<Rightarrow> ws st' = ws st \<and> rest = []"
      by auto
    show "\<exists>r0 rest. calls st' = calls st @ (?c, r0) # rest \<and>
           streams_built rest = [] \<and>
           (case r0 of Inr h \<Rightarrow> ws st' = h \<and> streams_built (calls st') = [h]
                     | Inl e \<Rightarrow> ws st' = PyNone \<and> rest = [])"
      using c q h nb none
      by (intro exI [of _ r0] exI [of _ rest])
         (auto simp: streams_built_Cons is_stream_ctor_New split: sum.splits)
  qed
  from inv' have "length (streams_built (calls st')) \<le> 1" by (auto simp: handle_inv_def)
  with i inv other keep first show ?thesis by (simp add: handle_inv_def)
qed

lemma demo_stream_sound:
  "stream_ctor_sound (demo_env [(''StockDataStream'', Inr client_obj)] (Inr PyNone))"
  by (auto simp: stream_ctor_sound_def is_stream_ctor_def demo_defs split: sdk_call.splits)

theorem stream_handle_created_once_witness:
  "stream_ctor_sound (demo_env [(''StockDataStream'', Inr client_obj)] (Inr PyNone)) \<and>
   (\<exists>st0. init (demo_env [(''StockDataStream'', Inr client_obj)] (Inr PyNone))
             ''key'' ''secret'' True False () = Inr st0 \<and>
          ws st0 = PyNone \<and>
          ws (run_ops (demo_env [(''StockDataStream'', Inr client_obj)] (Inr PyNone))
                [SubscribePrice [''SPY''] (PyStr ''on_bar''), GetAccountJson] st0) = client_obj \<and>
          ws (snd (perform (demo_env [(''StockDataStream'', Inr client_obj)] (Inr PyNone))
                     (SubscribePrice [''AAPL''] (PyStr ''on_bar''))
                     (run_ops (demo_env [(''StockDataStream'', Inr client_obj)] (Inr PyNone))
                        [SubscribePrice [''SPY''] (PyStr ''on_bar''), GetAccountJson] st0)))
            = client_obj \<and>
          streams_built (calls (snd (perform (demo_env [(''StockDataStream'', Inr client_obj)] (Inr PyNone))
                     (SubscribePrice [''AAPL''] (PyStr ''on_bar''))
                     (run_ops (demo_env [(''StockDataStream'', Inr client_obj)] (Inr PyNone))
                        [SubscribePrice [''SPY''] (PyStr ''on_bar''), GetAccountJson] st0))))
            = [client_obj])"
proof -
  let ?E = "demo_env [(''StockDataStream'', Inr client_obj)] (Inr PyNone)"
  let ?ops = "[SubscribePrice [''SPY''] (PyStr ''on_bar''), GetAccountJson]"
  let ?op = "SubscribePrice [''AAPL''] (PyStr ''on_bar'')"
  define st0 :: "unit state" where "st0 =
    \<lparr>raw = False, trade = PyNone, hist = PyNone, ws = PyNone, api_key = ''key'',
     secret = ''secret'',
     calls = [(New ''TradingClient'' [Obj (PyStr ''key''), Obj (PyStr ''secret'')]
                 [(''paper'', Obj (PyBool True))], Inr PyNone),
              (New ''StockHistoricalDataClient'' [Obj (PyStr ''key''), Obj (PyStr ''secret'')] [],
               Inr PyNone)],
     remote = ()\<rparr>"
  have i: "init ?E ''key'' ''secret'' True False () = Inr st0"
    by (simp add: init_def demo_env_def sdk_name_def st0_def)
  let ?st = "run_ops ?E ?ops st0"
  have p: "perform ?E ?op ?st = (fst (perform ?E ?op ?st), snd (perform ?E ?op ?st))" by simp
  have w: "ws ?st = client_obj"
    by (simp add: st0_def subscribe_price_def ensure_ws_def set_ws_def get_account_json_def
        as_json_self_def as_json.simps py_defs demo_env_def sdk_name_def Let_def client_obj_def)
  have t: "truthy client_obj" by (simp add: client_obj_def)
  from stream_handle_created_once [OF demo_stream_sound i refl p] w t
  have "ws st0 = PyNone" and "ws (snd (perform ?E ?op ?st)) = client_obj"
    and "streams_built (calls (snd (perform ?E ?op ?st))) = [client_obj]"
    by auto
  with demo_stream_sound i w show ?thesis by blast
qed

end
